theory Spec2Isabelle
  imports Complex_Main
begin

section \<open>Data model\<close>

text \<open>
  The three tables of the schema, one record per row. A \<^verbatim>\<open>DATE\<close> is the number of its
  day counted from 1970-01-01, a \<^verbatim>\<open>TIMESTAMP\<close> and a JavaScript \<^verbatim>\<open>Date\<close> are
  milliseconds from the same origin, and a \<^verbatim>\<open>DECIMAL(10, 2)\<close> price is its exact number of
  cents. A nullable column is an \<open>option\<close>, \<open>None\<close> being SQL \<^verbatim>\<open>NULL\<close>. Columns clash
  between the tables (\<^verbatim>\<open>id\<close>, \<^verbatim>\<open>price\<close>, \<^verbatim>\<open>created_at\<close>), so every field carries
  the initial of its table. The surrogate \<^verbatim>\<open>id\<close> of \<^verbatim>\<open>price_history\<close> is never read or
  written by the server and is left out.

  Conventions of the model, which the source leaves to its environment: the store runs in the
  time zone of the server process, and that zone is a fixed offset from UTC (no daylight
  saving change); strings are compared exactly (binary collation); arithmetic on prices is
  exact.
\<close>

type_synonym date = int
type_synonym timestamp = int
type_synonym money = int

text \<open>
  What the process reads from its clock: the instant, in milliseconds of UTC since
  1970-01-01, and the offset of its time zone, in milliseconds east of UTC.
\<close>

record clock =
  instant :: timestamp
  zone_offset :: int

datatype location = Pantry | Fridge | Freezer

record item =
  i_id :: int
  i_name :: string
  i_brand :: "string option"
  i_location :: location
  i_purchase_date :: date
  i_best_by_date :: date
  i_price :: money
  i_image_path :: "string option"
  i_is_spoiled :: bool
  i_created_at :: timestamp

record reminder =
  r_id :: int
  r_item_id :: "int option"
  r_item_name :: string
  r_message :: string
  r_is_closed :: bool
  r_created_at :: timestamp

record price_entry =
  ph_item_name :: string
  ph_item_brand :: "string option"
  ph_price :: money
  ph_recorded_at :: date

text \<open>
  The state the server works on: the three tables in insertion order, the two
  \<^verbatim>\<open>AUTO_INCREMENT\<close> counters that the server reads back, and the lines written with
  \<^verbatim>\<open>console.error\<close>.
\<close>

record world =
  items :: "item list"
  reminders :: "reminder list"
  price_history :: "price_entry list"
  next_item_id :: int
  next_reminder_id :: int
  console :: "string list"

definition empty_world :: world where
  "empty_world = \<lparr>items = [], reminders = [], price_history = [],
     next_item_id = 1, next_reminder_id = 1, console = []\<rparr>"

section \<open>JavaScript values, store calls and their failures\<close>

text \<open>
  A brand as the JavaScript code holds it: \<^verbatim>\<open>undefined\<close> (the field is absent from the
  request), \<^verbatim>\<open>null\<close>, or a string.
\<close>

datatype jsval = Undefined | Null | Str string

datatype error = DbError | BindUndefined

text \<open>
  Every \<^verbatim>\<open>pool.execute\<close> may reject. Which call of a request does is chosen by the
  environment, here a record with one flag per call site (per item for the two calls made inside
  the sweep's loop). A rejected statement has no effect on the tables.
\<close>

record faults =
  purge_fails :: bool
  scan_fails :: bool
  dedup_fails :: "int \<Rightarrow> bool"
  remind_fails :: "int \<Rightarrow> bool"
  log_fails :: bool
  write_fails :: bool
  image_select_fails :: bool
  query_fails :: bool
  query2_fails :: bool

definition no_faults :: faults where
  "no_faults = \<lparr>purge_fails = False, scan_fails = False, dedup_fails = (\<lambda>_. False),
     remind_fails = (\<lambda>_. False), log_fails = False, write_fails = False,
     image_select_fails = False, query_fails = False, query2_fails = False\<rparr>"

definition pool_execute :: "bool \<Rightarrow> 'a \<Rightarrow> error + 'a" where
  "pool_execute fails result = (if fails then Inl DbError else Inr result)"

text \<open>
  Binding a value as a statement parameter: \<^verbatim>\<open>null\<close> is sent as \<^verbatim>\<open>NULL\<close>, a string as
  itself, and the driver refuses \<^verbatim>\<open>undefined\<close> before anything reaches the store.
\<close>

fun bind_param :: "jsval \<Rightarrow> error + string option" where
  "bind_param Undefined = Inl BindUndefined"
| "bind_param Null = Inr None"
| "bind_param (Str s) = Inr (Some s)"

section \<open>Clock and calendar\<close>

text \<open>
  What the source takes from its platform: \<^verbatim>\<open>CURDATE()\<close> (the local day),
  \<^verbatim>\<open>CURRENT_TIMESTAMP\<close> (the instant, in whole seconds), the \<^verbatim>\<open>Date\<close> that the driver
  builds for a \<^verbatim>\<open>DATE\<close> column (the local midnight of that day; the pool is created with
  the driver's default \<^verbatim>\<open>timezone: 'local'\<close>), the proleptic Gregorian calendar behind
  \<^verbatim>\<open>Date\<close>, and the decimal and ISO renderings that the template strings use.
\<close>

definition ms_per_day :: int where
  "ms_per_day = 1000 * 60 * 60 * 24"

definition local_time :: "clock \<Rightarrow> timestamp" where
  "local_time now = instant now + zone_offset now"

definition curdate :: "clock \<Rightarrow> date" where
  "curdate now = local_time now div ms_per_day"

definition local_midnight :: "clock \<Rightarrow> date \<Rightarrow> timestamp" where
  "local_midnight now d = d * ms_per_day - zone_offset now"

definition current_timestamp :: "clock \<Rightarrow> timestamp" where
  "current_timestamp now = (instant now div 1000) * 1000"

text \<open>Day number of a calendar date (month 1 to 12), and back.\<close>

definition days_from_civil :: "int \<Rightarrow> int \<Rightarrow> int \<Rightarrow> date" where
  "days_from_civil y m d =
     (let y' = (if m \<le> 2 then y - 1 else y);
          era = y' div 400;
          yoe = y' - era * 400;
          doy = (153 * (if m > 2 then m - 3 else m + 9) + 2) div 5 + d - 1;
          doe = yoe * 365 + yoe div 4 - yoe div 100 + doy
      in era * 146097 + doe - 719468)"

definition civil_from_days :: "date \<Rightarrow> int \<times> int \<times> int" where
  "civil_from_days z =
     (let z' = z + 719468;
          era = z' div 146097;
          doe = z' - era * 146097;
          yoe = (doe - doe div 1460 + doe div 36524 - doe div 146096) div 365;
          doy = doe - (365 * yoe + yoe div 4 - yoe div 100);
          mp = (5 * doy + 2) div 153;
          d = doy - (153 * mp + 2) div 5 + 1;
          m = (if mp < 10 then mp + 3 else mp - 9)
      in (yoe + era * 400 + (if m \<le> 2 then 1 else 0), m, d))"

text \<open>
  \<^verbatim>\<open>d = new Date(); d.setMonth(d.getMonth() - 1)\<close>, on the local fields: the same day of
  the month and time of day in the month before; a day of the month that the month before
  does not have runs over into the month after it, as \<^verbatim>\<open>MakeDay\<close> prescribes. The result
  is again an instant.
\<close>

definition one_month_ago :: "clock \<Rightarrow> timestamp" where
  "one_month_ago now =
     (case civil_from_days (local_time now div ms_per_day) of
        (y, m, d) \<Rightarrow>
          (let month = (m - 1) - 1;
               ym = y + month div 12;
               mn = month mod 12
           in (days_from_civil ym (mn + 1) 1 + d - 1) * ms_per_day + local_time now mod ms_per_day
                - zone_offset now))"

fun digits :: "nat \<Rightarrow> string" where
  "digits n = (if n < 10 then [''0123456789'' ! n] else digits (n div 10) @ [''0123456789'' ! (n mod 10)])"

declare digits.simps [simp del]

definition show_int :: "int \<Rightarrow> string" where
  "show_int k = (if k < 0 then ''-'' @ digits (nat (- k)) else digits (nat k))"

definition pad :: "nat \<Rightarrow> string \<Rightarrow> string" where
  "pad k s = replicate (k - length s) (CHR ''0'') @ s"

text \<open>
  The day \<open>z\<close> as \<^verbatim>\<open>YYYY-MM-DD\<close>, for the years 0 to 9999 (a \<^verbatim>\<open>DATE\<close> column holds the
  years 1000 to 9999).
\<close>

definition iso_date :: "date \<Rightarrow> string" where
  "iso_date z =
     (case civil_from_days z of
        (y, m, d) \<Rightarrow> pad 4 (digits (nat y)) @ ''-'' @ pad 2 (digits (nat m)) @ ''-'' @ pad 2 (digits (nat d)))"

text \<open>
  \<^verbatim>\<open>date.toISOString().split('T')[0]\<close>: the UTC day of the instant.
\<close>

definition toISOString_date :: "timestamp \<Rightarrow> string" where
  "toISOString_date t = iso_date (t div ms_per_day)"

text \<open>\<^verbatim>\<open>Math.ceil(a / b)\<close> for integers \<open>a\<close> and \<open>b > 0\<close>.\<close>

definition ceil_div :: "int \<Rightarrow> int \<Rightarrow> int" where
  "ceil_div a b = - ((- a) div b)"

section \<open>Reminder engine\<close>

definition DAYS_THRESHOLD :: int where
  "DAYS_THRESHOLD = 3"

text \<open>
  \<^verbatim>\<open>DELETE FROM reminders WHERE is_closed = TRUE AND created_at < ?\<close>
\<close>

definition delete_closed_before :: "timestamp \<Rightarrow> world \<Rightarrow> world" where
  "delete_closed_before t w =
     w\<lparr>reminders := filter (\<lambda>r. \<not> (r_is_closed r \<and> r_created_at r < t)) (reminders w)\<rparr>"

text \<open>
  \<^verbatim>\<open>SELECT id, name, best_by_date FROM items WHERE DATEDIFF(best_by_date, CURDATE()) <= ?\<close>
\<close>

definition select_expiring :: "clock \<Rightarrow> int \<Rightarrow> world \<Rightarrow> item list" where
  "select_expiring now threshold w =
     filter (\<lambda>i. i_best_by_date i - curdate now \<le> threshold) (items w)"

text \<open>
  The two signs that open the messages, byte for byte as the source file has them.
\<close>

definition alert_sign :: string where
  "alert_sign = [CHR 0xEF, CHR 0xA3, CHR 0xBF, CHR 0xC3, CHR 0xBC, CHR 0xC3, CHR 0xB6, CHR 0xC2, CHR 0xAE]"

definition warning_sign :: string where
  "warning_sign = [CHR 0xE2, CHR 0x80, CHR 0x9A, CHR 0xC3, CHR 0xB6, CHR 0xE2, CHR 0x80, CHR 0xA0,
     CHR 0xC3, CHR 0x94, CHR 0xE2, CHR 0x88, CHR 0x8F, CHR 0xC3, CHR 0xA8]"

text \<open>
  \<^verbatim>\<open>bestBy = new Date(item.best_by_date)\<close> is the local midnight of the best-by day, and
  \<^verbatim>\<open>diffDays = Math.ceil((bestBy.getTime() - new Date().getTime()) / (1000 * 60 * 60 * 24))\<close>.
\<close>

definition diff_days :: "clock \<Rightarrow> item \<Rightarrow> int" where
  "diff_days now item =
     ceil_div (local_midnight now (i_best_by_date item) - instant now) ms_per_day"

definition reminder_message :: "clock \<Rightarrow> item \<Rightarrow> string" where
  "reminder_message now item =
     (let diffDays = diff_days now item in
      if diffDays < 0 then
        alert_sign @ '' ALERT: '' @ i_name item @ '' is PAST its best-by date (''
          @ toISOString_date (local_midnight now (i_best_by_date item)) @ '').''
      else if diffDays = 0 then
        warning_sign @ '' WARNING: '' @ i_name item @ '' expires TODAY!''
      else
        warning_sign @ '' WARNING: '' @ i_name item @ '' expires in '' @ show_int diffDays
          @ '' day(s).'')"

text \<open>
  \<^verbatim>\<open>SELECT id FROM reminders WHERE item_id = ? AND message = ? AND is_closed = FALSE\<close>
\<close>

definition select_existing :: "int \<Rightarrow> string \<Rightarrow> world \<Rightarrow> reminder list" where
  "select_existing item_id message w =
     filter (\<lambda>r. r_item_id r = Some item_id \<and> r_message r = message \<and> \<not> r_is_closed r)
       (reminders w)"

text \<open>
  \<^verbatim>\<open>INSERT INTO reminders (item_id, item_name, message) VALUES (?, ?, ?)\<close>, the other
  columns taking their defaults.
\<close>

definition new_reminder :: "clock \<Rightarrow> int \<Rightarrow> item \<Rightarrow> string \<Rightarrow> reminder" where
  "new_reminder now rid item message =
     \<lparr>r_id = rid, r_item_id = Some (i_id item), r_item_name = i_name item,
      r_message = message, r_is_closed = False, r_created_at = current_timestamp now\<rparr>"

definition insert_reminder :: "clock \<Rightarrow> item \<Rightarrow> string \<Rightarrow> world \<Rightarrow> world" where
  "insert_reminder now item message w =
     w\<lparr>reminders := reminders w @ [new_reminder now (next_reminder_id w) item message],
       next_reminder_id := next_reminder_id w + 1\<rparr>"

text \<open>The callback that the sweep maps over the expiring items.\<close>

definition reminder_task :: "faults \<Rightarrow> clock \<Rightarrow> item \<Rightarrow> world \<Rightarrow> world \<times> (error + unit)" where
  "reminder_task f now item w =
     (let message = reminder_message now item in
      case pool_execute (dedup_fails f (i_id item)) (select_existing (i_id item) message w) of
        Inl e \<Rightarrow> (w, Inl e)
      | Inr existingReminders \<Rightarrow>
          if length existingReminders = 0 then
            (case pool_execute (remind_fails f (i_id item)) (insert_reminder now item message w) of
               Inl e \<Rightarrow> (w, Inl e)
             | Inr w' \<Rightarrow> (w', Inr ()))
          else (w, Inr ()))"

text \<open>
  \<^verbatim>\<open>Promise.all\<close> over callbacks that are all started: each one runs to its end whatever
  the others do, and the first rejection, if any, is the result. The callbacks of one sweep
  concern different items, so they are run here one after the other, in the order of the scan.
\<close>

fun promise_all :: "(world \<Rightarrow> world \<times> (error + unit)) list \<Rightarrow> world \<Rightarrow> world \<times> (error + unit)" where
  "promise_all [] w = (w, Inr ())"
| "promise_all (t # ts) w =
     (case t w of
        (w1, r1) \<Rightarrow>
          (case promise_all ts w1 of
             (w2, r2) \<Rightarrow> (w2, case r1 of Inl e \<Rightarrow> Inl e | Inr _ \<Rightarrow> r2)))"

text \<open>
  The body of the \<^verbatim>\<open>try\<close> block of the sweep, together with the cutoff that the source
  computes just before it.
\<close>

definition sweep_body :: "faults \<Rightarrow> clock \<Rightarrow> world \<Rightarrow> world \<times> (error + unit)" where
  "sweep_body f now w =
     (let ONE_MONTH_AGO = one_month_ago now in
      case pool_execute (purge_fails f) (delete_closed_before ONE_MONTH_AGO w) of
        Inl e \<Rightarrow> (w, Inl e)
      | Inr w1 \<Rightarrow>
          (case pool_execute (scan_fails f) (select_expiring now DAYS_THRESHOLD w1) of
             Inl e \<Rightarrow> (w1, Inl e)
           | Inr expiringItems \<Rightarrow> promise_all (map (reminder_task f now) expiringItems) w1))"

definition checkExpirationAndGenerateReminders ::
  "faults \<Rightarrow> clock \<Rightarrow> world \<Rightarrow> world \<times> (error + unit)" where
  "checkExpirationAndGenerateReminders f now w =
     (case sweep_body f now w of
        (w', Inl e) \<Rightarrow>
          (w'\<lparr>console := console w' @ [''Error in expiration check/reminder logic:'']\<rparr>, Inr ())
      | (w', Inr u) \<Rightarrow> (w', Inr ()))"

section \<open>Price history logger\<close>

text \<open>
  \<^verbatim>\<open>UNIQUE KEY unique_price_entry (item_name, item_brand, recorded_at)\<close>: two rows collide
  on the index when the three columns are equal and none of them is \<^verbatim>\<open>NULL\<close>. The brand is
  the only nullable column of the key, and a \<^verbatim>\<open>NULL\<close> in a unique index equals nothing,
  itself included.
\<close>

definition unique_price_entry :: "price_entry \<Rightarrow> price_entry \<Rightarrow> bool" where
  "unique_price_entry new old =
     (ph_item_brand new \<noteq> None \<and> ph_item_name old = ph_item_name new \<and>
      ph_item_brand old = ph_item_brand new \<and> ph_recorded_at old = ph_recorded_at new)"

text \<open>
  \<^verbatim>\<open>INSERT INTO price_history ... ON DUPLICATE KEY UPDATE price = VALUES(price)\<close>
\<close>

definition insert_price_history :: "price_entry \<Rightarrow> price_entry list \<Rightarrow> price_entry list" where
  "insert_price_history new rows =
     (if list_ex (unique_price_entry new) rows
      then map (\<lambda>old. if unique_price_entry new old then old\<lparr>ph_price := ph_price new\<rparr> else old) rows
      else rows @ [new])"

definition db_brand :: "jsval \<Rightarrow> jsval" where
  "db_brand brand = (if brand = Undefined \<or> brand = Str [] then Null else brand)"

text \<open>
  \<^verbatim>\<open>logPriceHistory(name, brand, price, purchase_date)\<close>. The result pairs the state the
  call leaves with how the call ends: \<open>Inr ()\<close> is a normal return, \<open>Inl e\<close> would be an
  exception reaching the caller.
\<close>

definition logPriceHistory ::
  "faults \<Rightarrow> string \<Rightarrow> jsval \<Rightarrow> money \<Rightarrow> date \<Rightarrow> world \<Rightarrow> world \<times> (error + unit)" where
  "logPriceHistory f name brand price purchase_date w =
     (if price \<le> 0 then (w, Inr ())
      else
        (case (case bind_param (db_brand brand) of
                 Inl e \<Rightarrow> Inl e
               | Inr b \<Rightarrow>
                   pool_execute (log_fails f)
                     (w\<lparr>price_history :=
                          insert_price_history
                            \<lparr>ph_item_name = name, ph_item_brand = b, ph_price = price,
                             ph_recorded_at = purchase_date\<rparr>
                            (price_history w)\<rparr>)) of
           Inl e \<Rightarrow> (w\<lparr>console := console w @ [''Error logging price history:'']\<rparr>, Inr ())
         | Inr w' \<Rightarrow> (w', Inr ())))"

section \<open>Item routes\<close>

text \<open>
  The multipart form of \<^verbatim>\<open>POST /api/items\<close> and \<^verbatim>\<open>PUT /api/items/:id\<close>. A text field is
  absent (\<open>None\<close>, \<open>Undefined\<close>) or a string; the dates and the location are taken as already
  well formed, \<open>None\<close> standing for an absent or empty field; \<open>f_price\<close> is \<open>None\<close> when
  \<^verbatim>\<open>parseFloat\<close> gives no number; \<open>f_file\<close> is the name under which the upload was saved.
  The files themselves (\<^verbatim>\<open>fs.unlink\<close>) are outside the model.
\<close>

record item_form =
  f_name :: "string option"
  f_brand :: jsval
  f_location :: "location option"
  f_purchase_date :: "date option"
  f_best_by_date :: "date option"
  f_price :: "money option"
  f_file :: "string option"
  f_current_image_path :: jsval

datatype boundary = Start | End

datatype body =
    Error string
  | Message string
  | ItemAdded int jsval
  | ItemUpdated jsval
  | Spending money money money money
  | AnnualSummary "(int \<times> money) list"
  | NoPriceHistory string boundary date
  | PriceDifference string jsval date date money money money

datatype response = Response nat body

definition missing_required :: "item_form \<Rightarrow> bool" where
  "missing_required b =
     (f_name b = None \<or> f_name b = Some [] \<or> f_location b = None \<or>
      f_purchase_date b = None \<or> f_best_by_date b = None)"

definition log_error :: "string \<Rightarrow> world \<Rightarrow> world" where
  "log_error line w = w\<lparr>console := console w @ [line]\<rparr>"

text \<open>
  \<^verbatim>\<open>INSERT INTO items (name, brand, location, purchase_date, best_by_date, price, image_path)\<close>
\<close>

definition insert_item ::
  "clock \<Rightarrow> string \<Rightarrow> string option \<Rightarrow> location \<Rightarrow> date \<Rightarrow> date \<Rightarrow> money \<Rightarrow> string option
     \<Rightarrow> world \<Rightarrow> world" where
  "insert_item now name brand location purchase_date best_by_date price image_path w =
     w\<lparr>items := items w @
          [\<lparr>i_id = next_item_id w, i_name = name, i_brand = brand, i_location = location,
            i_purchase_date = purchase_date, i_best_by_date = best_by_date, i_price = price,
            i_image_path = image_path, i_is_spoiled = False,
            i_created_at = current_timestamp now\<rparr>],
       next_item_id := next_item_id w + 1\<rparr>"

text \<open>
  \<^verbatim>\<open>UPDATE items SET name=?, brand=?, location=?, purchase_date=?, best_by_date=?, price=?, image_path=? WHERE id=?\<close>
\<close>

definition update_item ::
  "int \<Rightarrow> string \<Rightarrow> string option \<Rightarrow> location \<Rightarrow> date \<Rightarrow> date \<Rightarrow> money \<Rightarrow> string option
     \<Rightarrow> world \<Rightarrow> world" where
  "update_item itemId name brand location purchase_date best_by_date price image_path w =
     w\<lparr>items :=
          map (\<lambda>i. if i_id i = itemId
                   then i\<lparr>i_name := name, i_brand := brand, i_location := location,
                          i_purchase_date := purchase_date, i_best_by_date := best_by_date,
                          i_price := price, i_image_path := image_path\<rparr>
                   else i)
            (items w)\<rparr>"

text \<open>\<^verbatim>\<open>SELECT image_path FROM items WHERE id = ?\<close>\<close>

definition select_image_path :: "int \<Rightarrow> world \<Rightarrow> string option list" where
  "select_image_path itemId w = map i_image_path (filter (\<lambda>i. i_id i = itemId) (items w))"

text \<open>
  \<^verbatim>\<open>DELETE FROM items WHERE id = ?\<close>, with the reminders that
  \<^verbatim>\<open>FOREIGN KEY (item_id) REFERENCES items(id) ON DELETE CASCADE\<close> takes along. The second
  component is \<^verbatim>\<open>affectedRows\<close>.
\<close>

definition delete_item_row :: "int \<Rightarrow> world \<Rightarrow> world \<times> nat" where
  "delete_item_row itemId w =
     (if list_ex (\<lambda>i. i_id i = itemId) (items w)
      then (w\<lparr>items := filter (\<lambda>i. i_id i \<noteq> itemId) (items w),
              reminders := filter (\<lambda>r. r_item_id r \<noteq> Some itemId) (reminders w)\<rparr>,
            length (filter (\<lambda>i. i_id i = itemId) (items w)))
      else (w, 0))"

definition post_item :: "faults \<Rightarrow> clock \<Rightarrow> item_form \<Rightarrow> world \<Rightarrow> world \<times> response" where
  "post_item f now b w =
     (let price = (case f_price b of None \<Rightarrow> 0 | Some p \<Rightarrow> p);
          imagePath = (case f_file b of None \<Rightarrow> Null | Some fn \<Rightarrow> Str (''/uploads/'' @ fn));
          dbBrand = db_brand (f_brand b)
      in if missing_required b then
           (w, Response 400 (Error ''Missing required fields (Name, Location, Dates).''))
         else
           (case (case bind_param dbBrand of
                    Inl e \<Rightarrow> Inl e
                  | Inr brand \<Rightarrow>
                      (case bind_param imagePath of
                         Inl e \<Rightarrow> Inl e
                       | Inr img \<Rightarrow>
                           pool_execute (write_fails f)
                             (insert_item now (the (f_name b)) brand (the (f_location b))
                                (the (f_purchase_date b)) (the (f_best_by_date b)) price img w))) of
              Inl e \<Rightarrow>
                (log_error ''Error adding item:'' w,
                 Response 500 (Error ''Failed to add item to database.''))
            | Inr w1 \<Rightarrow>
                (case logPriceHistory f (the (f_name b)) dbBrand price (the (f_purchase_date b)) w1 of
                   (w2, Inl e) \<Rightarrow>
                     (log_error ''Error adding item:'' w2,
                      Response 500 (Error ''Failed to add item to database.''))
                 | (w2, Inr u) \<Rightarrow>
                     (case checkExpirationAndGenerateReminders f now w2 of
                        (w3, Inl e) \<Rightarrow>
                          (log_error ''Error adding item:'' w3,
                           Response 500 (Error ''Failed to add item to database.''))
                      | (w3, Inr u') \<Rightarrow>
                          (w3, Response 201 (ItemAdded (next_item_id w) imagePath))))))"

definition put_item ::
  "faults \<Rightarrow> clock \<Rightarrow> int \<Rightarrow> item_form \<Rightarrow> world \<Rightarrow> world \<times> response" where
  "put_item f now itemId b w =
     (let price = (case f_price b of None \<Rightarrow> 0 | Some p \<Rightarrow> p);
          currentImagePath = f_current_image_path b;
          dbBrand = db_brand (f_brand b)
      in case (case f_file b of
                 Some fn \<Rightarrow> Inr (Str (''/uploads/'' @ fn))
               | None \<Rightarrow>
                   if currentImagePath = Str ''DELETE_FLAG'' then
                     (case pool_execute (image_select_fails f) (select_image_path itemId w) of
                        Inl e \<Rightarrow> Inl e
                      | Inr rows \<Rightarrow> Inr Null)
                   else Inr currentImagePath) of
           Inl e \<Rightarrow>
             (log_error ''Error updating item:'' w,
              Response 500 (Error ''Failed to update item in database.''))
         | Inr newImagePath \<Rightarrow>
             if missing_required b then
               (w, Response 400 (Error ''Missing required fields (Name, Location, Dates).''))
             else
               (case (case bind_param dbBrand of
                        Inl e \<Rightarrow> Inl e
                      | Inr brand \<Rightarrow>
                          (case bind_param newImagePath of
                             Inl e \<Rightarrow> Inl e
                           | Inr img \<Rightarrow>
                               pool_execute (write_fails f)
                                 (update_item itemId (the (f_name b)) brand (the (f_location b))
                                    (the (f_purchase_date b)) (the (f_best_by_date b)) price img w))) of
                  Inl e \<Rightarrow>
                    (log_error ''Error updating item:'' w,
                     Response 500 (Error ''Failed to update item in database.''))
                | Inr w1 \<Rightarrow>
                    (case logPriceHistory f (the (f_name b)) dbBrand price (the (f_purchase_date b)) w1 of
                       (w2, Inl e) \<Rightarrow>
                         (log_error ''Error updating item:'' w2,
                          Response 500 (Error ''Failed to update item in database.''))
                     | (w2, Inr u) \<Rightarrow>
                         (case checkExpirationAndGenerateReminders f now w2 of
                            (w3, Inl e) \<Rightarrow>
                              (log_error ''Error updating item:'' w3,
                               Response 500 (Error ''Failed to update item in database.''))
                          | (w3, Inr u') \<Rightarrow>
                              (w3, Response 200 (ItemUpdated newImagePath))))))"

definition delete_item :: "faults \<Rightarrow> int \<Rightarrow> world \<Rightarrow> world \<times> response" where
  "delete_item f itemId w =
     (case pool_execute (image_select_fails f) (select_image_path itemId w) of
        Inl e \<Rightarrow> (log_error ''Error deleting item:'' w, Response 500 (Error ''Failed to delete item''))
      | Inr rows \<Rightarrow>
          (case pool_execute (write_fails f) (delete_item_row itemId w) of
             Inl e \<Rightarrow>
               (log_error ''Error deleting item:'' w, Response 500 (Error ''Failed to delete item''))
           | Inr (w1, affectedRows) \<Rightarrow>
               if affectedRows = 0 then (w1, Response 404 (Error ''Item not found''))
               else (w1, Response 200 (Message ''Item deleted successfully''))))"

section \<open>Reminder routes\<close>

text \<open>
  \<^verbatim>\<open>UPDATE reminders SET is_closed = TRUE WHERE id = ?\<close>, with the number of rows matched.
\<close>

definition close_reminder_row :: "int \<Rightarrow> world \<Rightarrow> world \<times> nat" where
  "close_reminder_row rid w =
     (w\<lparr>reminders := map (\<lambda>r. if r_id r = rid then r\<lparr>r_is_closed := True\<rparr> else r) (reminders w)\<rparr>,
      length (filter (\<lambda>r. r_id r = rid) (reminders w)))"

text \<open>\<^verbatim>\<open>DELETE FROM reminders WHERE id = ? AND is_closed = FALSE\<close>\<close>

definition delete_active_row :: "int \<Rightarrow> world \<Rightarrow> world \<times> nat" where
  "delete_active_row rid w =
     (w\<lparr>reminders := filter (\<lambda>r. \<not> (r_id r = rid \<and> \<not> r_is_closed r)) (reminders w)\<rparr>,
      length (filter (\<lambda>r. r_id r = rid \<and> \<not> r_is_closed r) (reminders w)))"

text \<open>\<^verbatim>\<open>DELETE FROM reminders WHERE is_closed = TRUE\<close>\<close>

definition delete_closed :: "world \<Rightarrow> world" where
  "delete_closed w = w\<lparr>reminders := filter (\<lambda>r. \<not> r_is_closed r) (reminders w)\<rparr>"

definition close_reminder :: "faults \<Rightarrow> int \<Rightarrow> world \<Rightarrow> world \<times> response" where
  "close_reminder f rid w =
     (case pool_execute (write_fails f) (close_reminder_row rid w) of
        Inl e \<Rightarrow>
          (log_error ''Error closing reminder:'' w, Response 500 (Error ''Failed to close reminder''))
      | Inr (w1, affectedRows) \<Rightarrow>
          if affectedRows = 0 then (w1, Response 404 (Error ''Reminder not found''))
          else (w1, Response 200 (Message ''Reminder closed successfully'')))"

definition delete_active_reminder :: "faults \<Rightarrow> int \<Rightarrow> world \<Rightarrow> world \<times> response" where
  "delete_active_reminder f rid w =
     (case pool_execute (write_fails f) (delete_active_row rid w) of
        Inl e \<Rightarrow>
          (log_error ''Error deleting active reminder:'' w,
           Response 500 (Error ''Failed to delete active reminder''))
      | Inr (w1, affectedRows) \<Rightarrow>
          if affectedRows = 0 then (w1, Response 404 (Error ''Active reminder not found''))
          else (w1, Response 200 (Message ''Active reminder deleted successfully'')))"

definition clear_closed_reminders :: "faults \<Rightarrow> world \<Rightarrow> world \<times> response" where
  "clear_closed_reminders f w =
     (case pool_execute (write_fails f) (delete_closed w) of
        Inl e \<Rightarrow>
          (log_error ''Error clearing closed reminders:'' w,
           Response 500 (Error ''Failed to clear closed reminder history''))
      | Inr w1 \<Rightarrow> (w1, Response 200 (Message ''Closed reminder history cleared successfully'')))"

section \<open>Spending aggregator\<close>

text \<open>
  \<^verbatim>\<open>DATE_SUB(d, INTERVAL n MONTH)\<close> is \<open>add_months (- n) d\<close>: the same day of the month, or
  the last day of the target month when that month is shorter.
\<close>

definition add_months :: "int \<Rightarrow> date \<Rightarrow> date" where
  "add_months n z =
     (case civil_from_days z of
        (y, m, d) \<Rightarrow>
          (let k = y * 12 + (m - 1) + n;
               y' = k div 12;
               m' = k mod 12 + 1;
               last_day = days_from_civil (y' + m' div 12) (m' mod 12 + 1) 1 - days_from_civil y' m' 1
           in days_from_civil y' m' (min d last_day)))"

definition year_of :: "date \<Rightarrow> int" where
  "year_of z = fst (civil_from_days z)"

text \<open>
  The \<^verbatim>\<open>switch (period)\<close> for the periods other than \<^verbatim>\<open>'annual'\<close>: the date filter is
  either absent or a lower bound \<^verbatim>\<open>WHERE ph.recorded_at >= ...\<close>.
\<close>

definition dateFilterClause :: "string option \<Rightarrow> clock \<Rightarrow> date option" where
  "dateFilterClause period now =
     (if period = Some ''week'' then Some (curdate now - 7)
      else if period = Some ''month'' then Some (add_months (- 1) (curdate now))
      else if period = Some ''year'' then Some (add_months (- 12) (curdate now))
      else None)"

definition satisfies :: "date option \<Rightarrow> date \<Rightarrow> bool" where
  "satisfies clause d = (case clause of None \<Rightarrow> True | Some lower \<Rightarrow> d \<ge> lower)"

text \<open>SQL \<^verbatim>\<open>SUM\<close> is \<^verbatim>\<open>NULL\<close> over no rows; \<^verbatim>\<open>x || 0\<close> turns that into 0.\<close>

definition sql_sum :: "money list \<Rightarrow> money option" where
  "sql_sum xs = (if xs = [] then None else Some (sum_list xs))"

definition or_zero :: "money option \<Rightarrow> money" where
  "or_zero x = (case x of None \<Rightarrow> 0 | Some v \<Rightarrow> v)"

text \<open>\<^verbatim>\<open>SELECT SUM(price) AS totalSpent FROM price_history ph ${dateFilterClause}\<close>\<close>

definition select_total_spent :: "date option \<Rightarrow> world \<Rightarrow> money option" where
  "select_total_spent clause w =
     sql_sum (map ph_price (filter (\<lambda>ph. satisfies clause (ph_recorded_at ph)) (price_history w)))"

text \<open>
  The three \<^verbatim>\<open>SUM(CASE WHEN location = ... THEN price ELSE 0 END)\<close> over
  \<^verbatim>\<open>items i WHERE i.price > 0 ${locationFilterClause}\<close>.
\<close>

definition select_location_spent :: "date option \<Rightarrow> world \<Rightarrow> money option \<times> money option \<times> money option" where
  "select_location_spent clause w =
     (let rows = filter (\<lambda>i. i_price i > 0 \<and> satisfies clause (i_purchase_date i)) (items w);
          spent = (\<lambda>l. sql_sum (map (\<lambda>i. if i_location i = l then i_price i else 0) rows))
      in (spent Pantry, spent Fridge, spent Freezer))"

text \<open>
  \<^verbatim>\<open>SELECT YEAR(recorded_at) AS year, SUM(price) AS total_spent FROM price_history GROUP BY year ORDER BY year DESC\<close>
\<close>

definition select_annual :: "world \<Rightarrow> (int \<times> money) list" where
  "select_annual w =
     map (\<lambda>y. (y, sum_list (map ph_price
                    (filter (\<lambda>ph. year_of (ph_recorded_at ph) = y) (price_history w)))))
       (rev (sort (remdups (map (\<lambda>ph. year_of (ph_recorded_at ph)) (price_history w)))))"

definition get_spending :: "faults \<Rightarrow> clock \<Rightarrow> string option \<Rightarrow> world \<Rightarrow> world \<times> response" where
  "get_spending f now period w =
     (if period = Some ''annual'' then
        (case pool_execute (query_fails f) (select_annual w) of
           Inl e \<Rightarrow>
             (log_error ''Error fetching annual spending stats:'' w,
              Response 500 (Error ''Failed to fetch annual spending stats''))
         | Inr annualResults \<Rightarrow> (w, Response 200 (AnnualSummary annualResults)))
      else
        (let clause = dateFilterClause period now in
         case pool_execute (query_fails f) (select_total_spent clause w) of
           Inl e \<Rightarrow>
             (log_error ''Error fetching spending stats:'' w,
              Response 500 (Error ''Failed to fetch spending statistics''))
         | Inr totalResult \<Rightarrow>
             (let totalSpent = or_zero totalResult;
                  locationFilterClause = (if period \<noteq> Some ''all'' then clause else None)
              in case pool_execute (query2_fails f) (select_location_spent locationFilterClause w) of
                   Inl e \<Rightarrow>
                     (log_error ''Error fetching spending stats:'' w,
                      Response 500 (Error ''Failed to fetch spending statistics''))
                 | Inr (pantrySpent, fridgeSpent, freezerSpent) \<Rightarrow>
                     (w, Response 200
                           (Spending totalSpent (or_zero pantrySpent) (or_zero fridgeSpent)
                              (or_zero freezerSpent))))))"

section \<open>Price difference lookup\<close>

record difference_query =
  q_name :: "string option"
  q_brand :: jsval
  q_startDate :: "date option"
  q_endDate :: "date option"

definition normalize_brand :: "jsval \<Rightarrow> jsval" where
  "normalize_brand brand = (if brand = Str ''null'' \<or> brand = Str [] then Null else brand)"

text \<open>
  \<^verbatim>\<open>SELECT price, recorded_at FROM price_history WHERE item_name = ? AND item_brand <=> ? AND recorded_at <= ? ORDER BY recorded_at DESC LIMIT 1\<close>.
  The null-safe \<^verbatim>\<open><=>\<close> is equality of options. Among rows of the same day the store may
  return any one; the model returns the one written last.
\<close>

definition select_closest :: "string \<Rightarrow> string option \<Rightarrow> date \<Rightarrow> world \<Rightarrow> price_entry list" where
  "select_closest name brand targetDate w =
     take 1 (rev (sort_key ph_recorded_at
       (filter (\<lambda>ph. ph_item_name ph = name \<and> ph_item_brand ph = brand \<and>
                      ph_recorded_at ph \<le> targetDate)
          (price_history w))))"

definition findClosestPrice ::
  "bool \<Rightarrow> string \<Rightarrow> jsval \<Rightarrow> date \<Rightarrow> world \<Rightarrow> error + price_entry option" where
  "findClosestPrice fails name brand targetDate w =
     (let dbBrand = (if brand = Str ''null'' \<or> brand = Str [] then Null else brand) in
      case bind_param dbBrand of
        Inl e \<Rightarrow> Inl e
      | Inr b \<Rightarrow>
          (case pool_execute fails (select_closest name b targetDate w) of
             Inl e \<Rightarrow> Inl e
           | Inr rows \<Rightarrow> Inr (case rows of [] \<Rightarrow> None | row # _ \<Rightarrow> Some row)))"

definition get_difference :: "faults \<Rightarrow> difference_query \<Rightarrow> world \<Rightarrow> world \<times> response" where
  "get_difference f q w =
     (if q_name q = None \<or> q_name q = Some [] \<or> q_startDate q = None \<or> q_endDate q = None then
        (w, Response 400 (Error ''Missing required parameters (Item, Start Date, End Date).''))
      else
        (let name = the (q_name q); startDate = the (q_startDate q); endDate = the (q_endDate q);
             brand = normalize_brand (q_brand q)
         in case findClosestPrice (query_fails f) name brand startDate w of
              Inl e \<Rightarrow>
                (log_error ''Error calculating price difference:'' w,
                 Response 500 (Error ''Failed to calculate price difference due to a server error.''))
            | Inr priceStart \<Rightarrow>
                (case findClosestPrice (query2_fails f) name brand endDate w of
                   Inl e \<Rightarrow>
                     (log_error ''Error calculating price difference:'' w,
                      Response 500 (Error ''Failed to calculate price difference due to a server error.''))
                 | Inr priceEnd \<Rightarrow>
                     (case priceStart of
                        None \<Rightarrow> (w, Response 404 (NoPriceHistory name Start startDate))
                      | Some ps \<Rightarrow>
                          (case priceEnd of
                             None \<Rightarrow> (w, Response 404 (NoPriceHistory name End endDate))
                           | Some pe \<Rightarrow>
                               (let startPrice = ph_price ps; endPrice = ph_price pe;
                                    difference = endPrice - startPrice
                                in (w, Response 200
                                         (PriceDifference name brand (ph_recorded_at ps)
                                            (ph_recorded_at pe) startPrice endPrice difference))))))))"

section \<open>The server as a transition system\<close>

text \<open>
  One event is one request of a route that writes to the store or is specified above, or one
  tick of the hourly timer. The routes that only list rows are left out.
\<close>

datatype event =
    PostItem item_form
  | PutItem int item_form
  | DeleteItem int
  | CloseReminder int
  | DeleteActiveReminder int
  | ClearClosedReminders
  | GetSpending "string option"
  | GetDifference difference_query
  | Tick

fun step :: "faults \<Rightarrow> clock \<Rightarrow> event \<Rightarrow> world \<Rightarrow> world" where
  "step f now (PostItem b) w = fst (post_item f now b w)"
| "step f now (PutItem itemId b) w = fst (put_item f now itemId b w)"
| "step f now (DeleteItem itemId) w = fst (delete_item f itemId w)"
| "step f now (CloseReminder rid) w = fst (close_reminder f rid w)"
| "step f now (DeleteActiveReminder rid) w = fst (delete_active_reminder f rid w)"
| "step f now ClearClosedReminders w = fst (clear_closed_reminders f w)"
| "step f now (GetSpending period) w = fst (get_spending f now period w)"
| "step f now (GetDifference q) w = fst (get_difference f q w)"
| "step f now Tick w = fst (checkExpirationAndGenerateReminders f now w)"

section \<open>Example states\<close>

text \<open>
  Concrete inputs on which the properties below are exercised. \<open>example_now\<close> is
  2024-01-01 10:00:00 on a server in UTC, day 19723; one month before it is 2023-12-01
  10:00:00, which is 1701424800000. The example world holds four items, due yesterday, today, in two days and
  in eleven weeks, and three reminders: a closed one created one second before the purge
  boundary, an open one created long before it, and a closed one created exactly on it.
  \<open>berlin_now\<close> is the same wall-clock time on a server one hour east of UTC, and
  \<open>month_end_now\<close> is 2024-03-31 12:34:56.789 on a server in UTC.
\<close>

definition example_now :: clock where
  "example_now = \<lparr>instant = 1704103200000, zone_offset = 0\<rparr>"

definition example_item :: "int \<Rightarrow> string \<Rightarrow> date \<Rightarrow> item" where
  "example_item k name best_by =
     \<lparr>i_id = k, i_name = name, i_brand = None, i_location = Fridge, i_purchase_date = 19700,
      i_best_by_date = best_by, i_price = 250, i_image_path = None, i_is_spoiled = False,
      i_created_at = 1702080000000\<rparr>"

definition milk :: item where "milk = example_item 1 ''Milk'' 19722"
definition eggs :: item where "eggs = example_item 2 ''Eggs'' 19723"
definition ham :: item where "ham = example_item 3 ''Ham'' 19725"
definition rice :: item where "rice = example_item 4 ''Rice'' 19800"

definition old_closed_reminder :: reminder where
  "old_closed_reminder =
     \<lparr>r_id = 1, r_item_id = Some 1, r_item_name = ''Milk'',
      r_message = reminder_message example_now milk, r_is_closed = True,
      r_created_at = 1701424799000\<rparr>"

definition old_open_reminder :: reminder where
  "old_open_reminder =
     \<lparr>r_id = 2, r_item_id = Some 2, r_item_name = ''Eggs'',
      r_message = reminder_message example_now eggs, r_is_closed = False,
      r_created_at = 1600000000000\<rparr>"

definition boundary_closed_reminder :: reminder where
  "boundary_closed_reminder =
     \<lparr>r_id = 3, r_item_id = Some 3, r_item_name = ''Ham'',
      r_message = reminder_message example_now ham, r_is_closed = True,
      r_created_at = 1701424800000\<rparr>"

definition example_world :: world where
  "example_world =
     \<lparr>items = [milk, eggs, ham, rice],
      reminders = [old_closed_reminder, old_open_reminder, boundary_closed_reminder],
      price_history = [], next_item_id = 5, next_reminder_id = 4, console = []\<rparr>"

definition side_effects_fail :: faults where
  "side_effects_fail =
     \<lparr>purge_fails = True, scan_fails = True, dedup_fails = (\<lambda>_. True),
      remind_fails = (\<lambda>_. True), log_fails = True, write_fails = False,
      image_select_fails = False, query_fails = False, query2_fails = False\<rparr>"


definition example_ledger :: world where
  "example_ledger =
     empty_world\<lparr>price_history :=
       [\<lparr>ph_item_name = ''Milk'', ph_item_brand = Some ''Acme'', ph_price = 1000, ph_recorded_at = 19723\<rparr>,
        \<lparr>ph_item_name = ''Milk'', ph_item_brand = Some ''Acme'', ph_price = 1200, ph_recorded_at = 19875\<rparr>]\<rparr>"

definition example_query :: difference_query where
  "example_query =
     \<lparr>q_name = Some ''Milk'', q_brand = Str ''Acme'', q_startDate = Some 19754, q_endDate = Some 19905\<rparr>"

definition single_entry_ledger :: world where
  "single_entry_ledger =
     empty_world\<lparr>price_history :=
       [\<lparr>ph_item_name = ''Milk'', ph_item_brand = Some ''Acme'', ph_price = 1000, ph_recorded_at = 19723\<rparr>,
        \<lparr>ph_item_name = ''Milk'', ph_item_brand = None, ph_price = 900, ph_recorded_at = 19730\<rparr>]\<rparr>"

definition week_ledger :: world where
  "week_ledger =
     empty_world\<lparr>price_history :=
       [\<lparr>ph_item_name = ''Milk'', ph_item_brand = None, ph_price = 100, ph_recorded_at = 19715\<rparr>,
        \<lparr>ph_item_name = ''Eggs'', ph_item_brand = None, ph_price = 200, ph_recorded_at = 19716\<rparr>,
        \<lparr>ph_item_name = ''Ham'', ph_item_brand = None, ph_price = 400, ph_recorded_at = 19723\<rparr>,
        \<lparr>ph_item_name = ''Rice'', ph_item_brand = None, ph_price = 500, ph_recorded_at = 19724\<rparr>]\<rparr>"

definition future_ledger :: world where
  "future_ledger =
     empty_world\<lparr>price_history :=
       [\<lparr>ph_item_name = ''Rice'', ph_item_brand = None, ph_price = 500, ph_recorded_at = 19724\<rparr>]\<rparr>"

definition berlin_now :: clock where
  "berlin_now = \<lparr>instant = 1704099600000, zone_offset = 3600000\<rparr>"

definition month_end_now :: clock where
  "month_end_now = \<lparr>instant = 1711888496789, zone_offset = 0\<rparr>"

definition march_reminder :: reminder where
  "march_reminder =
     \<lparr>r_id = 1, r_item_id = Some 1, r_item_name = ''Milk'', r_message = ''seen'',
      r_is_closed = True, r_created_at = 1709334000000\<rparr>"

definition brandless_form :: item_form where
  "brandless_form =
     \<lparr>f_name = Some ''Milk'', f_brand = Undefined, f_location = Some Fridge,
      f_purchase_date = Some 19723, f_best_by_date = Some 19800, f_price = Some 250,
      f_file = None, f_current_image_path = Undefined\<rparr>"

definition brandless_ledger :: world where
  "brandless_ledger =
     empty_world\<lparr>price_history :=
       [\<lparr>ph_item_name = ''Milk'', ph_item_brand = None, ph_price = 900, ph_recorded_at = 19730\<rparr>]\<rparr>"

definition brandless_query :: "jsval \<Rightarrow> date \<Rightarrow> date \<Rightarrow> difference_query" where
  "brandless_query brand startDate endDate =
     \<lparr>q_name = Some ''Milk'', q_brand = brand, q_startDate = Some startDate,
      q_endDate = Some endDate\<rparr>"

section \<open>The callbacks of a sweep\<close>

text \<open>
  The integer form of \<^verbatim>\<open>Math.ceil\<close> is the ceiling of the quotient, and on a local
  midnight minus the present instant it gives the difference of the local days, in any zone.
\<close>

lemma ceil_div_ceiling: "ceil_div a b = \<lceil>rat_of_int a / rat_of_int b\<rceil>"
  by (simp add: ceil_div_def ceiling_divide_eq_div)

lemma diff_days_eq: "diff_days now item = i_best_by_date item - curdate now"
proof -
  have "(t - i_best_by_date item * ms_per_day) div ms_per_day = t div ms_per_day - i_best_by_date item"
    for t
    by (simp add: ms_per_day_def)
  from this [of "instant now + zone_offset now"] show ?thesis
    by (simp add: diff_days_def ceil_div_def curdate_def local_time_def local_midnight_def
        algebra_simps)
qed

lemma utc_day_of_local_midnight:
  "local_midnight now d div ms_per_day = d + (- zone_offset now) div ms_per_day"
  by (simp add: local_midnight_def ms_per_day_def)

lemma reminder_message_by_sign:
  "reminder_message now i =
     (let n = i_best_by_date i - curdate now in
      if n < 0 then
        alert_sign @ '' ALERT: '' @ i_name i @ '' is PAST its best-by date (''
          @ iso_date (i_best_by_date i + (- zone_offset now) div ms_per_day) @ '').''
      else if n = 0 then warning_sign @ '' WARNING: '' @ i_name i @ '' expires TODAY!''
      else warning_sign @ '' WARNING: '' @ i_name i @ '' expires in '' @ show_int n @ '' day(s).'')"
  unfolding reminder_message_def Let_def diff_days_eq toISOString_date_def utc_day_of_local_midnight
  by simp

lemma reminder_task_cases:
  "reminder_task f now i w =
     (if dedup_fails f (i_id i) then (w, Inl DbError)
      else if select_existing (i_id i) (reminder_message now i) w \<noteq> [] then (w, Inr ())
      else if remind_fails f (i_id i) then (w, Inl DbError)
      else (insert_reminder now i (reminder_message now i) w, Inr ()))"
  by (simp add: reminder_task_def pool_execute_def Let_def)

lemma select_existing_append:
  "reminders w' = reminders w @ new \<Longrightarrow>
   select_existing k m w' = select_existing k m w @ filter (\<lambda>r. r_item_id r = Some k \<and> r_message r = m \<and> \<not> r_is_closed r) new"
  by (simp add: select_existing_def)

lemma reminder_task_frame:
  "items (fst (reminder_task f now i w)) = items w"
  "price_history (fst (reminder_task f now i w)) = price_history w"
  "console (fst (reminder_task f now i w)) = console w"
  "next_item_id (fst (reminder_task f now i w)) = next_item_id w"
  by (simp_all add: reminder_task_cases insert_reminder_def)

lemma fst_promise_all_Cons:
  "fst (promise_all (t # ts) w) = fst (promise_all ts (fst (t w)))"
  by (simp split: prod.splits)

lemma promise_all_frame:
  "items (fst (promise_all (map (reminder_task f now) is) w)) = items w \<and>
   price_history (fst (promise_all (map (reminder_task f now) is) w)) = price_history w \<and>
   console (fst (promise_all (map (reminder_task f now) is) w)) = console w \<and>
   next_item_id (fst (promise_all (map (reminder_task f now) is) w)) = next_item_id w"
proof (induction "is" arbitrary: w)
  case Nil
  then show ?case by simp
next
  case (Cons i "is")
  show ?case
    using Cons.IH [of "fst (reminder_task f now i w)"]
    by (simp add: reminder_task_frame fst_promise_all_Cons del: promise_all.simps)
qed

lemma promise_all_reminders:
  "\<exists>new. reminders (fst (promise_all (map (reminder_task f now) is) w)) = reminders w @ new \<and>
     (\<forall>r\<in>set new. \<not> r_is_closed r \<and>
        (\<exists>i\<in>set is. r_item_id r = Some (i_id i) \<and> r_item_name r = i_name i \<and>
           r_message r = reminder_message now i \<and>
           select_existing (i_id i) (reminder_message now i) w = []))"
proof (induction "is" arbitrary: w)
  case Nil
  then show ?case by simp
next
  case (Cons i "is")
  let ?w1 = "fst (reminder_task f now i w)"
  obtain new where new: "reminders (fst (promise_all (map (reminder_task f now) is) ?w1)) = reminders ?w1 @ new"
    and props: "\<forall>r\<in>set new. \<not> r_is_closed r \<and>
        (\<exists>j\<in>set is. r_item_id r = Some (i_id j) \<and> r_item_name r = i_name j \<and>
           r_message r = reminder_message now j \<and>
           select_existing (i_id j) (reminder_message now j) ?w1 = [])"
    using Cons.IH [of ?w1] by blast
  have step: "reminders ?w1 = reminders w \<or>
     (select_existing (i_id i) (reminder_message now i) w = [] \<and>
      reminders ?w1 = reminders w @ [new_reminder now (next_reminder_id w) i (reminder_message now i)])"
    by (simp add: reminder_task_cases insert_reminder_def)
  have mono: "select_existing k m ?w1 = [] \<Longrightarrow> select_existing k m w = []" for k m
    using step by (auto simp: select_existing_def)
  have fst_eq: "fst (promise_all (map (reminder_task f now) (i # is)) w) =
      fst (promise_all (map (reminder_task f now) is) ?w1)"
    by (simp add: fst_promise_all_Cons del: promise_all.simps)
  from step show ?case
  proof
    assume same: "reminders ?w1 = reminders w"
    show ?thesis
      unfolding fst_eq
      apply (rule exI [of _ new])
      using new props same mono by auto
  next
    assume ins: "select_existing (i_id i) (reminder_message now i) w = [] \<and>
      reminders ?w1 = reminders w @ [new_reminder now (next_reminder_id w) i (reminder_message now i)]"
    show ?thesis
      unfolding fst_eq
      apply (rule exI [of _ "new_reminder now (next_reminder_id w) i (reminder_message now i) # new"])
      using new props ins mono by (auto simp: new_reminder_def)
  qed
qed

lemma promise_all_noop:
  "\<forall>i\<in>set is. \<not> dedup_fails f (i_id i) \<and> select_existing (i_id i) (reminder_message now i) w \<noteq> [] \<Longrightarrow>
   promise_all (map (reminder_task f now) is) w = (w, Inr ())"
  by (induction "is") (simp_all add: reminder_task_cases)

lemma snd_promise_all_Cons:
  "snd (promise_all (t # ts) w) =
     (case snd (t w) of Inl e \<Rightarrow> Inl e | Inr u \<Rightarrow> snd (promise_all ts (fst (t w))))"
  by (simp split: prod.splits sum.splits)

lemma promise_all_ok:
  "\<forall>i\<in>set is. \<not> dedup_fails f (i_id i) \<and> \<not> remind_fails f (i_id i) \<Longrightarrow>
   snd (promise_all (map (reminder_task f now) is) w) = Inr ()"
proof (induction "is" arbitrary: w)
  case Nil
  then show ?case by simp
next
  case (Cons i "is")
  have "snd (reminder_task f now i w) = Inr ()"
    using Cons.prems by (simp add: reminder_task_cases)
  moreover have "snd (promise_all (map (reminder_task f now) is) (fst (reminder_task f now i w))) = Inr ()"
    using Cons.IH Cons.prems by simp
  ultimately show ?case
    by (simp add: snd_promise_all_Cons del: promise_all.simps)
qed

lemma select_existing_mono:
  assumes "select_existing k m w \<noteq> []"
  shows "select_existing k m (fst (promise_all (map (reminder_task f now) is) w)) \<noteq> []"
proof -
  obtain new where "reminders (fst (promise_all (map (reminder_task f now) is) w)) = reminders w @ new"
    using promise_all_reminders [of f now "is" w] by blast
  then show ?thesis
    using assms by (simp add: select_existing_def)
qed

lemma reminder_task_covers:
  assumes "\<not> dedup_fails f (i_id i)" and "\<not> remind_fails f (i_id i)"
  shows "select_existing (i_id i) (reminder_message now i) (fst (reminder_task f now i w)) \<noteq> []"
  using assms
  by (simp add: reminder_task_cases)
     (simp add: select_existing_def insert_reminder_def new_reminder_def)

lemma promise_all_covers:
  "j \<in> set is \<Longrightarrow> \<not> dedup_fails f (i_id j) \<Longrightarrow> \<not> remind_fails f (i_id j) \<Longrightarrow>
   select_existing (i_id j) (reminder_message now j)
     (fst (promise_all (map (reminder_task f now) is) w)) \<noteq> []"
proof (induction "is" arbitrary: w)
  case Nil
  then show ?case by simp
next
  case (Cons i "is")
  let ?w1 = "fst (reminder_task f now i w)"
  show ?case
  proof (cases "j = i")
    case True
    have "select_existing (i_id j) (reminder_message now j) ?w1 \<noteq> []"
      using Cons.prems True by (simp add: reminder_task_covers)
    then show ?thesis
      by (simp add: fst_promise_all_Cons select_existing_mono del: promise_all.simps)
  next
    case False
    then have "j \<in> set is" using Cons.prems by simp
    then show ?thesis
      using Cons.IH [of ?w1] Cons.prems
      by (simp add: fst_promise_all_Cons del: promise_all.simps)
  qed
qed

lemma select_existing_purged [simp]:
  "select_existing k m (delete_closed_before t w) = select_existing k m w"
  by (auto simp: select_existing_def delete_closed_before_def intro: filter_cong)

lemma select_expiring_iff:
  "i \<in> set (select_expiring now DAYS_THRESHOLD w) \<longleftrightarrow>
   i \<in> set (items w) \<and> i_best_by_date i - curdate now \<le> 3"
  by (auto simp: select_expiring_def DAYS_THRESHOLD_def)

lemma sweep_fst:
  "fst (checkExpirationAndGenerateReminders f now w) =
     (if purge_fails f then log_error ''Error in expiration check/reminder logic:'' w
      else if scan_fails f then
        log_error ''Error in expiration check/reminder logic:'' (delete_closed_before (one_month_ago now) w)
      else
        (let r = promise_all (map (reminder_task f now)
                    (select_expiring now DAYS_THRESHOLD (delete_closed_before (one_month_ago now) w)))
                   (delete_closed_before (one_month_ago now) w)
         in case snd r of Inl e \<Rightarrow> log_error ''Error in expiration check/reminder logic:'' (fst r)
            | Inr u \<Rightarrow> fst r))"
  by (simp add: checkExpirationAndGenerateReminders_def sweep_body_def pool_execute_def log_error_def
      Let_def split: prod.splits sum.splits)

lemma sweep_returns: "snd (checkExpirationAndGenerateReminders f now w) = Inr ()"
  by (simp add: checkExpirationAndGenerateReminders_def split: prod.splits sum.splits)

lemma sweep_frame:
  "items (fst (checkExpirationAndGenerateReminders f now w)) = items w \<and>
   price_history (fst (checkExpirationAndGenerateReminders f now w)) = price_history w \<and>
   next_item_id (fst (checkExpirationAndGenerateReminders f now w)) = next_item_id w"
  using promise_all_frame [of f now
      "select_expiring now DAYS_THRESHOLD (delete_closed_before (one_month_ago now) w)"
      "delete_closed_before (one_month_ago now) w"]
  by (simp add: sweep_fst log_error_def delete_closed_before_def Let_def split: sum.splits)

lemma sweep_reminders:
  "\<exists>new. reminders (fst (checkExpirationAndGenerateReminders f now w)) =
       (if purge_fails f then reminders w
        else filter (\<lambda>r. \<not> (r_is_closed r \<and> r_created_at r < one_month_ago now)) (reminders w)) @ new \<and>
     (\<forall>r\<in>set new. \<not> r_is_closed r \<and>
        (\<exists>i\<in>set (items w). i_best_by_date i - curdate now \<le> 3 \<and>
           r_item_id r = Some (i_id i) \<and> r_item_name r = i_name i \<and>
           r_message r = reminder_message now i \<and>
           select_existing (i_id i) (reminder_message now i) w = []))"
proof -
  let ?p = "delete_closed_before (one_month_ago now) w"
  let ?is = "select_expiring now DAYS_THRESHOLD ?p"
  show ?thesis
  proof (cases "purge_fails f \<or> scan_fails f")
    case True
    then show ?thesis
      by (auto simp: sweep_fst log_error_def delete_closed_before_def intro!: exI [of _ "[]"])
  next
    case False
    obtain new where new: "reminders (fst (promise_all (map (reminder_task f now) ?is) ?p)) = reminders ?p @ new"
      and props: "\<forall>r\<in>set new. \<not> r_is_closed r \<and>
        (\<exists>i\<in>set ?is. r_item_id r = Some (i_id i) \<and> r_item_name r = i_name i \<and>
           r_message r = reminder_message now i \<and>
           select_existing (i_id i) (reminder_message now i) ?p = [])"
      using promise_all_reminders [of f now ?is ?p] by blast
    have items_p: "items ?p = items w"
      by (simp add: delete_closed_before_def)
    have "reminders (fst (checkExpirationAndGenerateReminders f now w)) = reminders ?p @ new"
      using False new by (simp add: sweep_fst log_error_def Let_def split: sum.splits)
    moreover have "\<forall>r\<in>set new. \<not> r_is_closed r \<and>
        (\<exists>i\<in>set (items w). i_best_by_date i - curdate now \<le> 3 \<and>
           r_item_id r = Some (i_id i) \<and> r_item_name r = i_name i \<and>
           r_message r = reminder_message now i \<and>
           select_existing (i_id i) (reminder_message now i) w = [])"
      using props by (fastforce simp: select_expiring_iff items_p)
    ultimately show ?thesis
      using False by (auto simp: delete_closed_before_def)
  qed
qed

section \<open>The sweep as a whole\<close>

lemma select_existing_console [simp]:
  "select_existing k m (log_error line w) = select_existing k m w"
  by (simp add: select_existing_def log_error_def)

lemma sweep_covers:
  assumes "\<not> purge_fails f" "\<not> scan_fails f"
    and "\<not> dedup_fails f (i_id i)" "\<not> remind_fails f (i_id i)"
    and "i \<in> set (items w)" "i_best_by_date i - curdate now \<le> 3"
  shows "select_existing (i_id i) (reminder_message now i)
           (fst (checkExpirationAndGenerateReminders f now w)) \<noteq> []"
proof -
  let ?p = "delete_closed_before (one_month_ago now) w"
  have "i \<in> set (select_expiring now DAYS_THRESHOLD ?p)"
    using assms(5,6) by (simp add: select_expiring_iff delete_closed_before_def)
  then have "select_existing (i_id i) (reminder_message now i)
      (fst (promise_all (map (reminder_task f now) (select_expiring now DAYS_THRESHOLD ?p)) ?p)) \<noteq> []"
    using assms(3,4) by (rule promise_all_covers)
  then show ?thesis
    using assms(1,2) by (simp add: sweep_fst Let_def split: sum.splits)
qed

lemma no_faults_simps [simp]:
  "\<not> purge_fails no_faults" "\<not> scan_fails no_faults" "\<not> dedup_fails no_faults k"
  "\<not> remind_fails no_faults k" "\<not> log_fails no_faults" "\<not> write_fails no_faults"
  "\<not> image_select_fails no_faults" "\<not> query_fails no_faults" "\<not> query2_fails no_faults"
  by (simp_all add: no_faults_def)

lemma sweep_no_faults:
  "fst (checkExpirationAndGenerateReminders no_faults now w) =
     fst (promise_all (map (reminder_task no_faults now)
            (select_expiring now DAYS_THRESHOLD (delete_closed_before (one_month_ago now) w)))
          (delete_closed_before (one_month_ago now) w))"
  by (simp add: sweep_fst Let_def promise_all_ok)

lemma purge_fixed:
  assumes "reminders w' = filter (\<lambda>r. \<not> (r_is_closed r \<and> r_created_at r < t)) rs @ new"
    and "\<forall>r\<in>set new. \<not> r_is_closed r"
  shows "delete_closed_before t w' = w'"
proof -
  have "filter (\<lambda>r. \<not> (r_is_closed r \<and> r_created_at r < t)) new = new"
    using assms(2) by (simp add: filter_id_conv)
  then have "filter (\<lambda>r. \<not> (r_is_closed r \<and> r_created_at r < t)) (reminders w') = reminders w'"
    using assms(1) by simp
  then show ?thesis
    by (simp add: delete_closed_before_def)
qed

lemma sweep_idempotent:
  "fst (checkExpirationAndGenerateReminders no_faults now
          (fst (checkExpirationAndGenerateReminders no_faults now w))) =
   fst (checkExpirationAndGenerateReminders no_faults now w)"
proof -
  let ?w' = "fst (checkExpirationAndGenerateReminders no_faults now w)"
  obtain new where new: "reminders ?w' =
      filter (\<lambda>r. \<not> (r_is_closed r \<and> r_created_at r < one_month_ago now)) (reminders w) @ new"
    and opn: "\<forall>r\<in>set new. \<not> r_is_closed r"
    using sweep_reminders [of no_faults now w] by auto
  have fixed: "delete_closed_before (one_month_ago now) ?w' = ?w'"
    using new opn by (rule purge_fixed)
  have "\<forall>i\<in>set (select_expiring now DAYS_THRESHOLD ?w').
      \<not> dedup_fails no_faults (i_id i) \<and> select_existing (i_id i) (reminder_message now i) ?w' \<noteq> []"
    by (simp add: select_expiring_iff sweep_frame sweep_covers)
  then have "promise_all (map (reminder_task no_faults now) (select_expiring now DAYS_THRESHOLD ?w')) ?w' = (?w', Inr ())"
    by (rule promise_all_noop)
  then show ?thesis
    using sweep_no_faults [of now ?w'] by (simp add: fixed)
qed

lemma sweep_new_reminders:
  assumes "r \<in> set (reminders (fst (checkExpirationAndGenerateReminders f now w)))"
    and "r \<notin> set (reminders w)"
  shows "\<not> r_is_closed r \<and>
     (\<exists>i\<in>set (items w). i_best_by_date i - curdate now \<le> 3 \<and>
           r_item_id r = Some (i_id i) \<and> r_item_name r = i_name i \<and>
           r_message r = reminder_message now i \<and>
           select_existing (i_id i) (reminder_message now i) w = [])"
proof -
  obtain new where new: "reminders (fst (checkExpirationAndGenerateReminders f now w)) =
       (if purge_fails f then reminders w
        else filter (\<lambda>r. \<not> (r_is_closed r \<and> r_created_at r < one_month_ago now)) (reminders w)) @ new"
    and props: "\<forall>r\<in>set new. \<not> r_is_closed r \<and>
        (\<exists>i\<in>set (items w). i_best_by_date i - curdate now \<le> 3 \<and>
           r_item_id r = Some (i_id i) \<and> r_item_name r = i_name i \<and>
           r_message r = reminder_message now i \<and>
           select_existing (i_id i) (reminder_message now i) w = [])"
    using sweep_reminders [of f now w] by blast
  have "r \<in> set new"
    using assms new by (auto split: if_splits)
  then show ?thesis
    using props by blast
qed

lemma sweep_keeps_open:
  assumes "r \<in> set (reminders w)" and "\<not> r_is_closed r"
  shows "r \<in> set (reminders (fst (checkExpirationAndGenerateReminders f now w)))"
  using sweep_reminders [of f now w] assms by auto

lemma sweep_open_prefix:
  "take (length (filter (\<lambda>r. \<not> r_is_closed r) (reminders w)))
     (filter (\<lambda>r. \<not> r_is_closed r) (reminders (fst (checkExpirationAndGenerateReminders f now w)))) =
   filter (\<lambda>r. \<not> r_is_closed r) (reminders w)"
proof -
  obtain new where new: "reminders (fst (checkExpirationAndGenerateReminders f now w)) =
       (if purge_fails f then reminders w
        else filter (\<lambda>r. \<not> (r_is_closed r \<and> r_created_at r < one_month_ago now)) (reminders w)) @ new"
    using sweep_reminders [of f now w] by blast
  have "filter (\<lambda>r. \<not> r_is_closed r)
          (filter (\<lambda>r. \<not> (r_is_closed r \<and> r_created_at r < one_month_ago now)) (reminders w)) =
        filter (\<lambda>r. \<not> r_is_closed r) (reminders w)"
    by (auto intro: filter_cong)
  then show ?thesis
    using new by simp
qed

lemma purge_exact:
  assumes "\<not> purge_fails f" and "r \<in> set (reminders w)"
  shows "(r \<notin> set (reminders (fst (checkExpirationAndGenerateReminders f now w)))) =
         (r_is_closed r \<and> r_created_at r < one_month_ago now)"
  using sweep_reminders [of f now w] assms by auto

section \<open>The routes and their side effects\<close>

lemma returns_normally:
  "snd p = Inr () \<Longrightarrow>
   (case p of (w', Inl e) \<Rightarrow> A w' e | (w', Inr u) \<Rightarrow> B w' u) = B (fst p) ()"
  by (cases p) auto

lemma log_returns: "snd (logPriceHistory f name brand price day w) = Inr ()"
  by (simp add: logPriceHistory_def split: sum.splits)

lemma bind_db_brand: "bind_param (db_brand b) = Inr (case b of Str (c # s) \<Rightarrow> Some (c # s) | _ \<Rightarrow> None)"
  by (cases b) (auto simp: db_brand_def split: list.splits)

lemma log_fst:
  "fst (logPriceHistory f name brand price day w) =
     (if price \<le> 0 then w
      else if log_fails f then log_error ''Error logging price history:'' w
      else w\<lparr>price_history :=
              insert_price_history
                \<lparr>ph_item_name = name,
                 ph_item_brand = (case brand of Str (c # s) \<Rightarrow> Some (c # s) | _ \<Rightarrow> None),
                 ph_price = price, ph_recorded_at = day\<rparr>
                (price_history w)\<rparr>)"
  by (simp add: logPriceHistory_def bind_db_brand pool_execute_def log_error_def)

lemma log_frame:
  "reminders (fst (logPriceHistory f name brand price day w)) = reminders w \<and>
   items (fst (logPriceHistory f name brand price day w)) = items w"
  by (simp add: log_fst log_error_def)

lemma post_item_eq:
  "post_item f now b w =
     (if missing_required b then
        (w, Response 400 (Error ''Missing required fields (Name, Location, Dates).''))
      else if write_fails f then
        (log_error ''Error adding item:'' w, Response 500 (Error ''Failed to add item to database.''))
      else
        (fst (checkExpirationAndGenerateReminders f now
           (fst (logPriceHistory f (the (f_name b)) (db_brand (f_brand b))
                   (case f_price b of None \<Rightarrow> 0 | Some p \<Rightarrow> p) (the (f_purchase_date b))
                   (insert_item now (the (f_name b))
                      (case f_brand b of Str (c # s) \<Rightarrow> Some (c # s) | _ \<Rightarrow> None)
                      (the (f_location b)) (the (f_purchase_date b)) (the (f_best_by_date b))
                      (case f_price b of None \<Rightarrow> 0 | Some p \<Rightarrow> p)
                      (case f_file b of None \<Rightarrow> None | Some fn \<Rightarrow> Some (''/uploads/'' @ fn)) w)))),
         Response 201 (ItemAdded (next_item_id w)
           (case f_file b of None \<Rightarrow> Null | Some fn \<Rightarrow> Str (''/uploads/'' @ fn)))))"
proof -
  have img: "bind_param (case f_file b of None \<Rightarrow> Null | Some fn \<Rightarrow> Str (''/uploads/'' @ fn)) =
      Inr (case f_file b of None \<Rightarrow> None | Some fn \<Rightarrow> Some (''/uploads/'' @ fn))"
    by (simp split: option.splits)
  show ?thesis
    unfolding post_item_def Let_def
    by (simp add: bind_db_brand img pool_execute_def returns_normally log_returns sweep_returns)
qed

lemma put_item_eq:
  "put_item f now itemId b w =
     (let newImagePath =
            (case f_file b of
               Some fn \<Rightarrow> Str (''/uploads/'' @ fn)
             | None \<Rightarrow> if f_current_image_path b = Str ''DELETE_FLAG'' then Null
                       else f_current_image_path b)
      in if f_file b = None \<and> f_current_image_path b = Str ''DELETE_FLAG'' \<and> image_select_fails f then
           (log_error ''Error updating item:'' w,
            Response 500 (Error ''Failed to update item in database.''))
         else if missing_required b then
           (w, Response 400 (Error ''Missing required fields (Name, Location, Dates).''))
         else
           (case bind_param newImagePath of
              Inl e \<Rightarrow>
                (log_error ''Error updating item:'' w,
                 Response 500 (Error ''Failed to update item in database.''))
            | Inr img \<Rightarrow>
                if write_fails f then
                  (log_error ''Error updating item:'' w,
                   Response 500 (Error ''Failed to update item in database.''))
                else
                  (fst (checkExpirationAndGenerateReminders f now
                     (fst (logPriceHistory f (the (f_name b)) (db_brand (f_brand b))
                             (case f_price b of None \<Rightarrow> 0 | Some p \<Rightarrow> p) (the (f_purchase_date b))
                             (update_item itemId (the (f_name b))
                                (case f_brand b of Str (c # s) \<Rightarrow> Some (c # s) | _ \<Rightarrow> None)
                                (the (f_location b)) (the (f_purchase_date b)) (the (f_best_by_date b))
                                (case f_price b of None \<Rightarrow> 0 | Some p \<Rightarrow> p) img w)))),
                   Response 200 (ItemUpdated newImagePath))))"
  unfolding put_item_def Let_def
  by (simp add: bind_db_brand pool_execute_def returns_normally log_returns sweep_returns
      split: option.splits sum.splits)

lemma keeps_console [simp]:
  "reminders (log_error line w) = reminders w" "items (log_error line w) = items w"
  "price_history (log_error line w) = price_history w"
  by (simp_all add: log_error_def)

lemma side_effects_keep_open:
  assumes "r \<in> set (reminders w)" and "\<not> r_is_closed r"
  shows "r \<in> set (reminders (fst (checkExpirationAndGenerateReminders f now
           (fst (logPriceHistory f name brand price day w)))))"
  using assms by (simp add: sweep_keeps_open log_frame)

lemma post_item_keeps_open:
  assumes "r \<in> set (reminders w)" and "\<not> r_is_closed r"
  shows "r \<in> set (reminders (fst (post_item f now b w)))"
proof -
  have "reminders (insert_item now n br l pd bb p img w) = reminders w" for n br l pd bb p img
    by (simp add: insert_item_def)
  then show ?thesis
    using assms by (simp add: post_item_eq side_effects_keep_open)
qed

lemma put_item_keeps_open:
  assumes "r \<in> set (reminders w)" and "\<not> r_is_closed r"
  shows "r \<in> set (reminders (fst (put_item f now itemId b w)))"
proof -
  have "reminders (update_item itemId n br l pd bb p img w) = reminders w" for n br l pd bb p img
    by (simp add: update_item_def)
  then show ?thesis
    using assms by (simp add: put_item_eq side_effects_keep_open Let_def split: sum.splits)
qed

lemma delete_item_removes:
  assumes "r \<in> set (reminders w)" and "r \<notin> set (reminders (fst (delete_item f itemId w)))"
  shows "r_item_id r = Some itemId"
  using assms
  by (auto simp: delete_item_def delete_item_row_def pool_execute_def split: if_splits)

lemma close_reminder_changes:
  assumes "r \<in> set (reminders w)" and "r \<notin> set (reminders (fst (close_reminder f rid w)))"
  shows "r_id r = rid"
proof (rule ccontr)
  assume "r_id r \<noteq> rid"
  then have "r \<in> set (reminders (fst (close_reminder f rid w)))"
    using assms(1) by (auto simp: close_reminder_def close_reminder_row_def pool_execute_def image_iff intro!: bexI [of _ r])
  with assms(2) show False by simp
qed

lemma delete_active_removes:
  assumes "r \<in> set (reminders w)" and "r \<notin> set (reminders (fst (delete_active_reminder f rid w)))"
  shows "r_id r = rid"
  using assms
  by (auto simp: delete_active_reminder_def delete_active_row_def pool_execute_def split: if_splits)

lemma clear_closed_keeps_open:
  assumes "r \<in> set (reminders w)" and "\<not> r_is_closed r"
  shows "r \<in> set (reminders (fst (clear_closed_reminders f w)))"
  using assms by (simp add: clear_closed_reminders_def delete_closed_def pool_execute_def)

lemma get_spending_reminders: "reminders (fst (get_spending f now period w)) = reminders w"
  by (simp add: get_spending_def pool_execute_def Let_def split: prod.splits)

lemma get_difference_reminders: "reminders (fst (get_difference f q w)) = reminders w"
  by (simp add: get_difference_def Let_def split: sum.splits option.splits)

lemma step_removes_open:
  assumes "r \<in> set (reminders w)" and "\<not> r_is_closed r"
    and "r \<notin> set (reminders (step f now ev w))"
  shows "ev = CloseReminder (r_id r) \<or> ev = DeleteActiveReminder (r_id r) \<or>
         (\<exists>k. ev = DeleteItem k \<and> r_item_id r = Some k)"
proof (cases ev)
  case (PostItem b)
  then show ?thesis using assms post_item_keeps_open by simp
next
  case (PutItem k b)
  then show ?thesis using assms put_item_keeps_open by simp
next
  case (DeleteItem k)
  then show ?thesis using assms delete_item_removes by simp
next
  case (CloseReminder k)
  then show ?thesis using assms close_reminder_changes by simp
next
  case (DeleteActiveReminder k)
  then show ?thesis using assms delete_active_removes by simp
next
  case ClearClosedReminders
  then show ?thesis using assms clear_closed_keeps_open by simp
next
  case (GetSpending p)
  then show ?thesis using assms by (simp add: get_spending_reminders)
next
  case (GetDifference q)
  then show ?thesis using assms by (simp add: get_difference_reminders)
next
  case Tick
  then show ?thesis using assms sweep_keeps_open by simp
qed



section \<open>The lookup of the closest price\<close>

lemma sorted_key_last:
  "sorted (map f xs) \<Longrightarrow> x \<in> set xs \<Longrightarrow> f x \<le> f (last xs)"
  by (induction xs) (auto split: if_splits)

lemma latest_first:
  assumes "m \<noteq> []"
  shows "\<exists>row. take 1 (rev (sort_key f m)) = [row] \<and> row \<in> set m \<and> (\<forall>r\<in>set m. f r \<le> f row)"
proof -
  let ?xs = "sort_key f m"
  have ne: "?xs \<noteq> []"
    using assms by (metis set_sort set_empty)
  then have "take 1 (rev ?xs) = [last ?xs]"
    by (cases "rev ?xs") (auto simp: last_rev [symmetric] simp del: last_rev)
  moreover have "last ?xs \<in> set m"
    using ne last_in_set [of ?xs] by simp
  moreover have "\<forall>r\<in>set m. f r \<le> f (last ?xs)"
    using sorted_key_last [of f ?xs] by simp
  ultimately show ?thesis by blast
qed

lemma findClosestPrice_eq:
  assumes "bind_param (normalize_brand b) = Inr brand"
  shows "findClosestPrice False name (normalize_brand b) t w =
     Inr (case select_closest name brand t w of [] \<Rightarrow> None | row # _ \<Rightarrow> Some row)"
proof -
  have "(if normalize_brand b = Str ''null'' \<or> normalize_brand b = Str [] then Null else normalize_brand b) =
      normalize_brand b"
    by (simp add: normalize_brand_def)
  then show ?thesis
    using assms by (simp add: findClosestPrice_def pool_execute_def Let_def)
qed

lemma select_closest_none:
  "filter (\<lambda>ph. ph_item_name ph = name \<and> ph_item_brand ph = brand \<and> ph_recorded_at ph \<le> t)
     (price_history w) = [] \<Longrightarrow> select_closest name brand t w = []"
  by (simp add: select_closest_def)

lemma select_closest_some:
  assumes "filter (\<lambda>ph. ph_item_name ph = name \<and> ph_item_brand ph = brand \<and> ph_recorded_at ph \<le> t)
     (price_history w) \<noteq> []"
  shows "\<exists>row. select_closest name brand t w = [row] \<and>
     row \<in> set (filter (\<lambda>ph. ph_item_name ph = name \<and> ph_item_brand ph = brand \<and> ph_recorded_at ph \<le> t)
                 (price_history w)) \<and>
     (\<forall>r\<in>set (filter (\<lambda>ph. ph_item_name ph = name \<and> ph_item_brand ph = brand \<and> ph_recorded_at ph \<le> t)
                 (price_history w)). ph_recorded_at r \<le> ph_recorded_at row)"
  unfolding select_closest_def
  using latest_first [OF assms, of ph_recorded_at] by simp

lemma select_closest_single:
  assumes "filter (\<lambda>ph. ph_item_name ph = name \<and> ph_item_brand ph = brand \<and> ph_recorded_at ph \<le> t)
     (price_history w) = [row]"
  shows "select_closest name brand t w = [row]"
  using assms by (simp add: select_closest_def)

lemma get_difference_eq:
  assumes "q_name q = Some name" "name \<noteq> []" "q_startDate q = Some s" "q_endDate q = Some e"
    and "bind_param (normalize_brand (q_brand q)) = Inr brand"
    and "\<not> query_fails f" "\<not> query2_fails f"
  shows "get_difference f q w =
     (w, case select_closest name brand s w of
           [] \<Rightarrow> Response 404 (NoPriceHistory name Start s)
         | ps # _ \<Rightarrow>
             (case select_closest name brand e w of
                [] \<Rightarrow> Response 404 (NoPriceHistory name End e)
              | pe # _ \<Rightarrow>
                  Response 200
                    (PriceDifference name (normalize_brand (q_brand q)) (ph_recorded_at ps)
                       (ph_recorded_at pe) (ph_price ps) (ph_price pe) (ph_price pe - ph_price ps))))"
  using assms
  by (simp add: get_difference_def findClosestPrice_eq [OF assms(5)] Let_def split: list.splits)

section \<open>The upsert of the logger\<close>

text \<open>
  A row without a brand is always appended. A row with a brand replaces the price of the rows
  it collides with, so that two writes of one day for a name with a brand leave one row with
  the second price.
\<close>

lemma insert_without_brand:
  "ph_item_brand new = None \<Longrightarrow> insert_price_history new rows = rows @ [new]"
  by (simp add: insert_price_history_def unique_price_entry_def list_ex_iff)

lemma upsert_with_brand:
  assumes "ph_item_brand new \<noteq> None"
  shows "filter (unique_price_entry new) (insert_price_history new rows) =
     (if filter (unique_price_entry new) rows = [] then [new]
      else map (\<lambda>old. old\<lparr>ph_price := ph_price new\<rparr>) (filter (unique_price_entry new) rows))"
proof (cases "list_ex (unique_price_entry new) rows")
  case True
  then have ne: "filter (unique_price_entry new) rows \<noteq> []"
    by (simp add: list_ex_iff filter_empty_conv)
  have "filter (unique_price_entry new)
      (map (\<lambda>old. if unique_price_entry new old then old\<lparr>ph_price := ph_price new\<rparr> else old) rows) =
    map (\<lambda>old. old\<lparr>ph_price := ph_price new\<rparr>) (filter (unique_price_entry new) rows)"
    by (induction rows) (auto simp: unique_price_entry_def)
  then show ?thesis
    using True ne by (simp add: insert_price_history_def)
next
  case False
  then have "filter (unique_price_entry new) rows = []"
    by (simp add: list_ex_iff filter_empty_conv)
  then show ?thesis
    using False assms by (simp add: insert_price_history_def unique_price_entry_def)
qed

lemma log_twice_with_brand:
  assumes "0 < p1" and "0 < p2" and "\<not> log_fails f" and "brand = Str (c # s)"
    and "filter (\<lambda>ph. ph_item_name ph = name \<and> ph_item_brand ph = Some (c # s) \<and> ph_recorded_at ph = day)
           (price_history w) = []"
  shows "filter (\<lambda>ph. ph_item_name ph = name \<and> ph_item_brand ph = Some (c # s) \<and> ph_recorded_at ph = day)
           (price_history (fst (logPriceHistory f name brand p2 day
              (fst (logPriceHistory f name brand p1 day w))))) =
         [\<lparr>ph_item_name = name, ph_item_brand = Some (c # s), ph_price = p2, ph_recorded_at = day\<rparr>]"
proof -
  let ?n1 = "\<lparr>ph_item_name = name, ph_item_brand = Some (c # s), ph_price = p1, ph_recorded_at = day\<rparr>"
  let ?n2 = "\<lparr>ph_item_name = name, ph_item_brand = Some (c # s), ph_price = p2, ph_recorded_at = day\<rparr>"
  have key: "unique_price_entry ?n1 = (\<lambda>ph. ph_item_name ph = name \<and> ph_item_brand ph = Some (c # s) \<and> ph_recorded_at ph = day)"
    "unique_price_entry ?n2 = (\<lambda>ph. ph_item_name ph = name \<and> ph_item_brand ph = Some (c # s) \<and> ph_recorded_at ph = day)"
    by (auto simp: unique_price_entry_def fun_eq_iff)
  have same: "unique_price_entry ?n2 = unique_price_entry ?n1"
    by (simp only: key)
  have none: "filter (unique_price_entry ?n1) (price_history w) = []"
    using assms(5) by (simp only: key)
  have one: "filter (unique_price_entry ?n1) (insert_price_history ?n1 (price_history w)) = [?n1]"
    using upsert_with_brand [of ?n1 "price_history w"] none by simp
  have "filter (unique_price_entry ?n2)
      (insert_price_history ?n2 (insert_price_history ?n1 (price_history w))) = [?n2]"
    using upsert_with_brand [of ?n2 "insert_price_history ?n1 (price_history w)"] one
    unfolding same by simp
  then have "filter (\<lambda>ph. ph_item_name ph = name \<and> ph_item_brand ph = Some (c # s) \<and> ph_recorded_at ph = day)
      (insert_price_history ?n2 (insert_price_history ?n1 (price_history w))) = [?n2]"
    by (simp only: key)
  then show ?thesis
    using assms(1-4) by (simp add: log_fst)
qed

section \<open>The weekly total\<close>

lemma or_zero_sql_sum: "or_zero (sql_sum xs) = sum_list xs"
  by (simp add: or_zero_def sql_sum_def)

lemma get_spending_week:
  assumes "\<not> query_fails f" and "\<not> query2_fails f"
  shows "get_spending f now (Some ''week'') w =
     (w, Response 200
           (Spending
              (sum_list (map ph_price
                 (filter (\<lambda>ph. curdate now - 7 \<le> ph_recorded_at ph) (price_history w))))
              (or_zero (fst (select_location_spent (Some (curdate now - 7)) w)))
              (or_zero (fst (snd (select_location_spent (Some (curdate now - 7)) w))))
              (or_zero (snd (snd (select_location_spent (Some (curdate now - 7)) w))))))"
  using assms
  by (simp add: get_spending_def dateFilterClause_def pool_execute_def select_total_spent_def
      satisfies_def or_zero_sql_sum Let_def split: prod.splits)

section \<open>The example states, evaluated\<close>

lemma example_sweep:
  "reminders (fst (checkExpirationAndGenerateReminders no_faults example_now example_world)) =
     [old_open_reminder, boundary_closed_reminder,
      new_reminder example_now 4 milk (reminder_message example_now milk),
      new_reminder example_now 5 ham (reminder_message example_now ham)]"
  by code_simp

lemma example_cutoff: "one_month_ago example_now = 1701424800000"
  by code_simp

lemma example_today: "curdate example_now = 19723"
  by code_simp

section \<open>The scan and the messages of a sweep\<close>

text \<open>
  The sweep scans exactly the items whose best-by date lies at most three days after today,
  the expired ones included; every reminder that it adds belongs to a scanned item and carries
  that item's message; and when the store does not fail every scanned item has an open
  reminder with its message afterwards. The message follows the sign of the day difference
  (\<open>reminder_message_by_sign\<close>); the day that the alert prints is the UTC day of the local
  midnight of the best-by date.
\<close>

lemma sweep_scans_and_words:
  "(i \<in> set (select_expiring now DAYS_THRESHOLD w) \<longleftrightarrow>
      i \<in> set (items w) \<and> i_best_by_date i - curdate now \<le> 3) \<and>
   (r \<in> set (reminders (fst (checkExpirationAndGenerateReminders f now w))) \<and>
    r \<notin> set (reminders w) \<longrightarrow>
      (\<exists>j\<in>set (items w). i_best_by_date j - curdate now \<le> 3 \<and> r_item_id r = Some (i_id j) \<and>
         r_item_name r = i_name j \<and> r_message r = reminder_message now j)) \<and>
   (\<not> purge_fails f \<and> \<not> scan_fails f \<and> \<not> dedup_fails f (i_id i) \<and> \<not> remind_fails f (i_id i) \<and>
    i \<in> set (items w) \<and> i_best_by_date i - curdate now \<le> 3 \<longrightarrow>
      (\<exists>r'\<in>set (reminders (fst (checkExpirationAndGenerateReminders f now w))).
         \<not> r_is_closed r' \<and> r_item_id r' = Some (i_id i) \<and> r_message r' = reminder_message now i))"
proof (intro conjI impI)
  show "i \<in> set (select_expiring now DAYS_THRESHOLD w) \<longleftrightarrow>
      i \<in> set (items w) \<and> i_best_by_date i - curdate now \<le> 3"
    by (rule select_expiring_iff)
next
  assume "r \<in> set (reminders (fst (checkExpirationAndGenerateReminders f now w))) \<and>
    r \<notin> set (reminders w)"
  then show "\<exists>j\<in>set (items w). i_best_by_date j - curdate now \<le> 3 \<and> r_item_id r = Some (i_id j) \<and>
         r_item_name r = i_name j \<and> r_message r = reminder_message now j"
    using sweep_new_reminders [of r f now w] by blast
next
  assume a: "\<not> purge_fails f \<and> \<not> scan_fails f \<and> \<not> dedup_fails f (i_id i) \<and> \<not> remind_fails f (i_id i) \<and>
    i \<in> set (items w) \<and> i_best_by_date i - curdate now \<le> 3"
  then have "select_existing (i_id i) (reminder_message now i)
           (fst (checkExpirationAndGenerateReminders f now w)) \<noteq> []"
    by (simp add: sweep_covers)
  then obtain r' where "r' \<in> set (select_existing (i_id i) (reminder_message now i)
           (fst (checkExpirationAndGenerateReminders f now w)))"
    by (meson last_in_set)
  then show "\<exists>r'\<in>set (reminders (fst (checkExpirationAndGenerateReminders f now w))).
         \<not> r_is_closed r' \<and> r_item_id r' = Some (i_id i) \<and> r_message r' = reminder_message now i"
    by (auto simp: select_existing_def)
qed

lemma example_messages:
  "map (reminder_message example_now) [milk, eggs, ham] =
     [alert_sign @ '' ALERT: Milk is PAST its best-by date (2023-12-31).'',
      warning_sign @ '' WARNING: Eggs expires TODAY!'',
      warning_sign @ '' WARNING: Ham expires in 2 day(s).'']"
  by code_simp

lemma example_digits: "map show_int [1, 3, 12, 120] = [''1'', ''3'', ''12'', ''120'']"
  by code_simp

section \<open>The purge and its cutoff\<close>

text \<open>
  In the example world the closed reminder created one second before the cutoff goes, the
  closed one created on the cutoff stays, and so does the open one created long before. The
  cutoff itself, on days that the month before also has: the same day and time of day, one
  month back, across a change of year and in a zone whose local day is not the UTC day.
\<close>

lemma purge_example:
  "\<not> purge_fails no_faults \<and>
   old_closed_reminder \<in> set (reminders example_world) \<and>
   r_is_closed old_closed_reminder \<and>
   r_created_at old_closed_reminder = one_month_ago example_now - 1000 \<and>
   old_closed_reminder \<notin> set (reminders (fst (checkExpirationAndGenerateReminders no_faults example_now example_world))) \<and>
   boundary_closed_reminder \<in> set (reminders example_world) \<and>
   r_is_closed boundary_closed_reminder \<and>
   r_created_at boundary_closed_reminder = one_month_ago example_now \<and>
   boundary_closed_reminder \<in> set (reminders (fst (checkExpirationAndGenerateReminders no_faults example_now example_world))) \<and>
   old_open_reminder \<in> set (reminders example_world) \<and>
   \<not> r_is_closed old_open_reminder \<and>
   r_created_at old_open_reminder < one_month_ago example_now \<and>
   old_open_reminder \<in> set (reminders (fst (checkExpirationAndGenerateReminders no_faults example_now example_world)))"
proof -
  have nf: "\<not> purge_fails no_faults"
    by simp
  have m1: "old_closed_reminder \<in> set (reminders example_world)"
    and m2: "boundary_closed_reminder \<in> set (reminders example_world)"
    and m3: "old_open_reminder \<in> set (reminders example_world)"
    by (simp_all add: example_world_def)
  have p1: "r_is_closed old_closed_reminder" "r_created_at old_closed_reminder = one_month_ago example_now - 1000"
    and p2: "r_is_closed boundary_closed_reminder" "r_created_at boundary_closed_reminder = one_month_ago example_now"
    and p3: "\<not> r_is_closed old_open_reminder" "r_created_at old_open_reminder < one_month_ago example_now"
    by (simp_all add: example_cutoff old_closed_reminder_def boundary_closed_reminder_def old_open_reminder_def)
  have c1: "old_closed_reminder \<notin> set (reminders (fst (checkExpirationAndGenerateReminders no_faults example_now example_world)))"
    using purge_exact [OF nf m1, of example_now] p1 by simp
  have c2: "boundary_closed_reminder \<in> set (reminders (fst (checkExpirationAndGenerateReminders no_faults example_now example_world)))"
    using purge_exact [OF nf m2, of example_now] p2 by simp
  have c3: "old_open_reminder \<in> set (reminders (fst (checkExpirationAndGenerateReminders no_faults example_now example_world)))"
    using purge_exact [OF nf m3, of example_now] p3 by simp
  show ?thesis
    using nf m1 m2 m3 p1 p2 p3 c1 c2 c3 by blast
qed

lemma one_month_ago_examples:
  "one_month_ago \<lparr>instant = 1705312800000, zone_offset = 0\<rparr> = 1702634400000"
  "civil_from_days (1705312800000 div ms_per_day) = (2024, 1, 15)"
  "civil_from_days (1702634400000 div ms_per_day) = (2023, 12, 15)"
  "one_month_ago \<lparr>instant = 1709249400000, zone_offset = 3600000\<rparr> = 1706743800000"
  "civil_from_days ((1709249400000 + 3600000) div ms_per_day) = (2024, 3, 1)"
  "civil_from_days ((1706743800000 + 3600000) div ms_per_day) = (2024, 2, 1)"
  by code_simp+

section \<open>The lookup for a request with a brand parameter\<close>

text \<open>
  For a request with a name, both dates and a brand parameter, and queries that go through:
  when no row of the name and brand is dated on or before the start date the answer is the 404
  that names the start date; when there is one for the start but none for the end date, the
  404 that names the end date; otherwise the answer carries, for each date, the day and price
  of a row of the name and brand that is dated on or before it and that no such row is dated
  after, and the difference is the end price minus the start price. When the only row of the
  name and brand is dated on or before both dates, both sides are that row and the difference
  is 0. The state is not changed.
\<close>

lemma price_difference_with_brand:
  assumes "q_name q = Some name" and "name \<noteq> []"
    and "q_startDate q = Some s" and "q_endDate q = Some e"
    and "bind_param (normalize_brand (q_brand q)) = Inr brand"
    and "\<not> query_fails f" and "\<not> query2_fails f"
  shows
    "(filter (\<lambda>ph. ph_item_name ph = name \<and> ph_item_brand ph = brand \<and> ph_recorded_at ph \<le> s)
        (price_history w) = [] \<longrightarrow>
        snd (get_difference f q w) = Response 404 (NoPriceHistory name Start s)) \<and>
     (filter (\<lambda>ph. ph_item_name ph = name \<and> ph_item_brand ph = brand \<and> ph_recorded_at ph \<le> s)
        (price_history w) \<noteq> [] \<and>
      filter (\<lambda>ph. ph_item_name ph = name \<and> ph_item_brand ph = brand \<and> ph_recorded_at ph \<le> e)
        (price_history w) = [] \<longrightarrow>
        snd (get_difference f q w) = Response 404 (NoPriceHistory name End e)) \<and>
     (filter (\<lambda>ph. ph_item_name ph = name \<and> ph_item_brand ph = brand \<and> ph_recorded_at ph \<le> s)
        (price_history w) \<noteq> [] \<and>
      filter (\<lambda>ph. ph_item_name ph = name \<and> ph_item_brand ph = brand \<and> ph_recorded_at ph \<le> e)
        (price_history w) \<noteq> [] \<longrightarrow>
        (\<exists>ps pe.
           snd (get_difference f q w) =
             Response 200
               (PriceDifference name (normalize_brand (q_brand q)) (ph_recorded_at ps)
                  (ph_recorded_at pe) (ph_price ps) (ph_price pe) (ph_price pe - ph_price ps)) \<and>
           ps \<in> set (price_history w) \<and> ph_item_name ps = name \<and> ph_item_brand ps = brand \<and>
           ph_recorded_at ps \<le> s \<and>
           (\<forall>ph\<in>set (price_history w).
              ph_item_name ph = name \<and> ph_item_brand ph = brand \<and> ph_recorded_at ph \<le> s \<longrightarrow>
              ph_recorded_at ph \<le> ph_recorded_at ps) \<and>
           pe \<in> set (price_history w) \<and> ph_item_name pe = name \<and> ph_item_brand pe = brand \<and>
           ph_recorded_at pe \<le> e \<and>
           (\<forall>ph\<in>set (price_history w).
              ph_item_name ph = name \<and> ph_item_brand ph = brand \<and> ph_recorded_at ph \<le> e \<longrightarrow>
              ph_recorded_at ph \<le> ph_recorded_at pe))) \<and>
     (filter (\<lambda>ph. ph_item_name ph = name \<and> ph_item_brand ph = brand) (price_history w) = [only] \<and>
      ph_recorded_at only \<le> s \<and> ph_recorded_at only \<le> e \<longrightarrow>
        snd (get_difference f q w) =
          Response 200
            (PriceDifference name (normalize_brand (q_brand q)) (ph_recorded_at only)
               (ph_recorded_at only) (ph_price only) (ph_price only) 0)) \<and>
     fst (get_difference f q w) = w"
proof -
  let ?m = "\<lambda>t. filter (\<lambda>ph. ph_item_name ph = name \<and> ph_item_brand ph = brand \<and> ph_recorded_at ph \<le> t)
        (price_history w)"
  note eq = get_difference_eq [OF assms, of w]
  have none_start: "snd (get_difference f q w) = Response 404 (NoPriceHistory name Start s)"
    if "?m s = []"
    using that by (simp add: eq select_closest_none)
  have none_end: "snd (get_difference f q w) = Response 404 (NoPriceHistory name End e)"
    if "?m s \<noteq> [] \<and> ?m e = []"
  proof -
    from that have ne: "?m s \<noteq> []" and em: "?m e = []"
      by simp_all
    obtain ps where "select_closest name brand s w = [ps]"
      using select_closest_some [OF ne] by auto
    then show ?thesis
      using em by (simp add: eq select_closest_none)
  qed
  have both: "\<exists>ps pe.
           snd (get_difference f q w) =
             Response 200
               (PriceDifference name (normalize_brand (q_brand q)) (ph_recorded_at ps)
                  (ph_recorded_at pe) (ph_price ps) (ph_price pe) (ph_price pe - ph_price ps)) \<and>
           ps \<in> set (price_history w) \<and> ph_item_name ps = name \<and> ph_item_brand ps = brand \<and>
           ph_recorded_at ps \<le> s \<and>
           (\<forall>ph\<in>set (price_history w).
              ph_item_name ph = name \<and> ph_item_brand ph = brand \<and> ph_recorded_at ph \<le> s \<longrightarrow>
              ph_recorded_at ph \<le> ph_recorded_at ps) \<and>
           pe \<in> set (price_history w) \<and> ph_item_name pe = name \<and> ph_item_brand pe = brand \<and>
           ph_recorded_at pe \<le> e \<and>
           (\<forall>ph\<in>set (price_history w).
              ph_item_name ph = name \<and> ph_item_brand ph = brand \<and> ph_recorded_at ph \<le> e \<longrightarrow>
              ph_recorded_at ph \<le> ph_recorded_at pe)"
    if "?m s \<noteq> [] \<and> ?m e \<noteq> []"
  proof -
    from that have ns: "?m s \<noteq> []" and ne: "?m e \<noteq> []"
      by simp_all
    obtain ps where ps: "select_closest name brand s w = [ps]" "ps \<in> set (?m s)"
      "\<forall>r\<in>set (?m s). ph_recorded_at r \<le> ph_recorded_at ps"
      using select_closest_some [OF ns] by auto
    obtain pe where pe: "select_closest name brand e w = [pe]" "pe \<in> set (?m e)"
      "\<forall>r\<in>set (?m e). ph_recorded_at r \<le> ph_recorded_at pe"
      using select_closest_some [OF ne] by auto
    have "snd (get_difference f q w) =
             Response 200
               (PriceDifference name (normalize_brand (q_brand q)) (ph_recorded_at ps)
                  (ph_recorded_at pe) (ph_price ps) (ph_price pe) (ph_price pe - ph_price ps))"
      by (simp add: eq ps(1) pe(1))
    then show ?thesis
      using ps(2,3) pe(2,3) by (intro exI [of _ ps] exI [of _ pe]) auto
  qed
  have single: "snd (get_difference f q w) =
          Response 200
            (PriceDifference name (normalize_brand (q_brand q)) (ph_recorded_at only)
               (ph_recorded_at only) (ph_price only) (ph_price only) 0)"
    if a: "filter (\<lambda>ph. ph_item_name ph = name \<and> ph_item_brand ph = brand) (price_history w) = [only] \<and>
      ph_recorded_at only \<le> s \<and> ph_recorded_at only \<le> e"
  proof -
    have two_steps: "?m t = filter (\<lambda>ph. ph_recorded_at ph \<le> t)
        (filter (\<lambda>ph. ph_item_name ph = name \<and> ph_item_brand ph = brand) (price_history w))" for t
      by (auto intro: filter_cong)
    have "?m s = [only]" "?m e = [only]"
      using a by (simp_all add: two_steps del: filter_filter)
    then have "select_closest name brand s w = [only]" "select_closest name brand e w = [only]"
      by (simp_all add: select_closest_single)
    then show ?thesis
      by (simp add: eq)
  qed
  have "fst (get_difference f q w) = w"
    by (simp add: eq)
  then show ?thesis
    using none_start none_end both single by blast
qed

text \<open>
  Milk bought on 2024-01-01 at 10.00 and on 2024-06-01 at 12.00, asked from 2024-02-01 to
  2024-07-01: 10.00, 12.00 and a difference of 2.00. A start date, or an end date, before the
  first purchase gives the 404 of that date. With the first purchase alone, both sides are
  that purchase.
\<close>

lemma price_difference_example:
  "q_name example_query = Some ''Milk'' \<and> q_startDate example_query = Some 19754 \<and>
   q_endDate example_query = Some 19905 \<and>
   bind_param (normalize_brand (q_brand example_query)) = Inr (Some ''Acme'') \<and>
   days_from_civil 2024 1 1 = 19723 \<and> days_from_civil 2024 6 1 = 19875 \<and>
   days_from_civil 2024 2 1 = 19754 \<and> days_from_civil 2024 7 1 = 19905 \<and>
   snd (get_difference no_faults example_query example_ledger) =
     Response 200 (PriceDifference ''Milk'' (Str ''Acme'') 19723 19875 1000 1200 200) \<and>
   snd (get_difference no_faults (example_query\<lparr>q_startDate := Some 19700\<rparr>) example_ledger) =
     Response 404 (NoPriceHistory ''Milk'' Start 19700) \<and>
   snd (get_difference no_faults (example_query\<lparr>q_endDate := Some 19700\<rparr>) example_ledger) =
     Response 404 (NoPriceHistory ''Milk'' End 19700) \<and>
   snd (get_difference no_faults example_query single_entry_ledger) =
     Response 200 (PriceDifference ''Milk'' (Str ''Acme'') 19723 19723 1000 1000 0)"
proof -
  let ?r1 = "\<lparr>ph_item_name = ''Milk'', ph_item_brand = Some ''Acme'', ph_price = 1000, ph_recorded_at = 19723\<rparr>"
  let ?r2 = "\<lparr>ph_item_name = ''Milk'', ph_item_brand = Some ''Acme'', ph_price = 1200, ph_recorded_at = 19875\<rparr>"
  have q: "q_name example_query = Some ''Milk''" "''Milk'' \<noteq> []"
    "q_startDate example_query = Some 19754" "q_endDate example_query = Some 19905"
    "bind_param (normalize_brand (q_brand example_query)) = Inr (Some ''Acme'')"
    by (simp_all add: example_query_def normalize_brand_def)
  have nf: "\<not> query_fails no_faults" "\<not> query2_fails no_faults"
    by simp_all
  have days: "days_from_civil 2024 1 1 = 19723" "days_from_civil 2024 6 1 = 19875"
    "days_from_civil 2024 2 1 = 19754" "days_from_civil 2024 7 1 = 19905"
    by code_simp+
  have led: "price_history example_ledger = [?r1, ?r2]"
    by (simp add: example_ledger_def empty_world_def)
  note t = price_difference_with_brand [OF q nf, of example_ledger]
  have "\<exists>ps pe.
      snd (get_difference no_faults example_query example_ledger) =
        Response 200
          (PriceDifference ''Milk'' (normalize_brand (q_brand example_query)) (ph_recorded_at ps)
             (ph_recorded_at pe) (ph_price ps) (ph_price pe) (ph_price pe - ph_price ps)) \<and>
      ps \<in> set (price_history example_ledger) \<and> ph_recorded_at ps \<le> 19754 \<and>
      pe \<in> set (price_history example_ledger) \<and>
      (\<forall>ph\<in>set (price_history example_ledger).
         ph_item_name ph = ''Milk'' \<and> ph_item_brand ph = Some ''Acme'' \<and> ph_recorded_at ph \<le> 19905 \<longrightarrow>
         ph_recorded_at ph \<le> ph_recorded_at pe)"
    using t [THEN conjunct2, THEN conjunct2, THEN conjunct1] unfolding led by auto
  then obtain ps pe where r:
      "snd (get_difference no_faults example_query example_ledger) =
        Response 200
          (PriceDifference ''Milk'' (normalize_brand (q_brand example_query)) (ph_recorded_at ps)
             (ph_recorded_at pe) (ph_price ps) (ph_price pe) (ph_price pe - ph_price ps))"
    and ps: "ps \<in> set [?r1, ?r2]" "ph_recorded_at ps \<le> 19754"
    and pe: "pe \<in> set [?r1, ?r2]" "ph_recorded_at ?r2 \<le> ph_recorded_at pe"
    unfolding led by auto
  have "ps = ?r1" using ps by auto
  moreover have "pe = ?r2" using pe by auto
  ultimately have c1: "snd (get_difference no_faults example_query example_ledger) =
     Response 200 (PriceDifference ''Milk'' (Str ''Acme'') 19723 19875 1000 1200 200)"
    using r by (simp add: example_query_def normalize_brand_def)
  have qs: "q_name (example_query\<lparr>q_startDate := Some 19700\<rparr>) = Some ''Milk''"
    "q_startDate (example_query\<lparr>q_startDate := Some 19700\<rparr>) = Some 19700"
    "q_endDate (example_query\<lparr>q_startDate := Some 19700\<rparr>) = Some 19905"
    "bind_param (normalize_brand (q_brand (example_query\<lparr>q_startDate := Some 19700\<rparr>))) = Inr (Some ''Acme'')"
    by (simp_all add: example_query_def normalize_brand_def)
  have c2: "snd (get_difference no_faults (example_query\<lparr>q_startDate := Some 19700\<rparr>) example_ledger) =
     Response 404 (NoPriceHistory ''Milk'' Start 19700)"
    using price_difference_with_brand [OF qs(1) q(2) qs(2,3,4) nf, of example_ledger, THEN conjunct1]
    unfolding led by simp
  have qe: "q_name (example_query\<lparr>q_endDate := Some 19700\<rparr>) = Some ''Milk''"
    "q_startDate (example_query\<lparr>q_endDate := Some 19700\<rparr>) = Some 19754"
    "q_endDate (example_query\<lparr>q_endDate := Some 19700\<rparr>) = Some 19700"
    "bind_param (normalize_brand (q_brand (example_query\<lparr>q_endDate := Some 19700\<rparr>))) = Inr (Some ''Acme'')"
    by (simp_all add: example_query_def normalize_brand_def)
  have c3: "snd (get_difference no_faults (example_query\<lparr>q_endDate := Some 19700\<rparr>) example_ledger) =
     Response 404 (NoPriceHistory ''Milk'' End 19700)"
    using price_difference_with_brand [OF qe(1) q(2) qe(2,3,4) nf, of example_ledger,
        THEN conjunct2, THEN conjunct1]
    unfolding led by simp
  have c4: "snd (get_difference no_faults example_query single_entry_ledger) =
     Response 200 (PriceDifference ''Milk'' (Str ''Acme'') 19723 19723 1000 1000 0)"
    using price_difference_with_brand [OF q nf, of single_entry_ledger ?r1,
        THEN conjunct2, THEN conjunct2, THEN conjunct2, THEN conjunct1]
    by (simp add: single_entry_ledger_def empty_world_def example_query_def normalize_brand_def)
  show ?thesis
    using q days c1 c2 c3 c4 by blast
qed

text \<open>
  The logger turns an absent, \<^verbatim>\<open>null\<close> or empty brand into \<^verbatim>\<open>null\<close>, the lookup turns
  an empty brand or the string \<^verbatim>\<open>"null"\<close> into \<^verbatim>\<open>null\<close>, and the comparison
  \<^verbatim>\<open><=>\<close> finds the rows without a brand for it.
\<close>

lemma brandless_lookup_with_sentinel:
  assumes "0 < price" and "\<not> log_fails f"
    and "logged = Undefined \<or> logged = Null \<or> logged = Str []"
    and "asked = Str ''null'' \<or> asked = Str []"
    and "day \<le> target"
  shows "db_brand logged = Null \<and> normalize_brand asked = Null \<and>
     price_history (fst (logPriceHistory f name logged price day w)) =
       price_history w @
         [\<lparr>ph_item_name = name, ph_item_brand = None, ph_price = price, ph_recorded_at = day\<rparr>] \<and>
     (\<exists>row. findClosestPrice False name (normalize_brand asked) target
               (fst (logPriceHistory f name logged price day w)) = Inr (Some row) \<and>
        row \<in> set (price_history (fst (logPriceHistory f name logged price day w))) \<and>
        ph_item_name row = name \<and> ph_item_brand row = None \<and>
        day \<le> ph_recorded_at row \<and> ph_recorded_at row \<le> target)"
proof -
  let ?new = "\<lparr>ph_item_name = name, ph_item_brand = None, ph_price = price, ph_recorded_at = day\<rparr>"
  let ?w' = "fst (logPriceHistory f name logged price day w)"
  let ?m = "filter (\<lambda>ph. ph_item_name ph = name \<and> ph_item_brand ph = None \<and> ph_recorded_at ph \<le> target)
      (price_history ?w')"
  have marker: "db_brand logged = Null" "normalize_brand asked = Null"
    using assms(3,4) by (auto simp: db_brand_def normalize_brand_def)
  have ledger: "price_history ?w' = price_history w @ [?new]"
    using assms(1,2,3) by (auto simp: log_fst insert_without_brand)
  have "?new \<in> set ?m"
    using assms(5) by (simp add: ledger)
  then have ne: "?m \<noteq> []"
    by (metis empty_iff empty_set)
  obtain row where row: "select_closest name None target ?w' = [row]" "row \<in> set ?m"
    "\<forall>r\<in>set ?m. ph_recorded_at r \<le> ph_recorded_at row"
    using select_closest_some [OF ne] by auto
  have later: "day \<le> ph_recorded_at row"
    using row(3) \<open>?new \<in> set ?m\<close> by fastforce
  have props: "row \<in> set (price_history ?w') \<and> ph_item_name row = name \<and> ph_item_brand row = None \<and>
      ph_recorded_at row \<le> target"
    using row(2) by simp
  have found: "findClosestPrice False name (normalize_brand asked) target ?w' = Inr (Some row)"
    using findClosestPrice_eq [of asked None name target ?w'] marker(2) row(1) by simp
  show ?thesis
    using marker ledger later props found by blast
qed

lemma brandless_lookup_example:
  "(0::int) < 250 \<and> \<not> log_fails no_faults \<and> (19723::int) \<le> 19730 \<and>
   db_brand Undefined = Null \<and> normalize_brand (Str ''null'') = Null \<and>
   price_history (fst (logPriceHistory no_faults ''Milk'' Undefined 250 19723 empty_world)) =
     [\<lparr>ph_item_name = ''Milk'', ph_item_brand = None, ph_price = 250, ph_recorded_at = 19723\<rparr>] \<and>
   findClosestPrice False ''Milk'' (normalize_brand (Str ''null'')) 19730
     (fst (logPriceHistory no_faults ''Milk'' Undefined 250 19723 empty_world)) =
     Inr (Some \<lparr>ph_item_name = ''Milk'', ph_item_brand = None, ph_price = 250, ph_recorded_at = 19723\<rparr>)"
proof -
  have h: "(0::int) < 250" "\<not> log_fails no_faults" "Undefined = Undefined \<or> Undefined = Null \<or> Undefined = Str []"
    "Str ''null'' = Str ''null'' \<or> Str ''null'' = Str []" "(19723::int) \<le> 19730"
    by simp_all
  note t = brandless_lookup_with_sentinel [OF h, of "''Milk''" empty_world]
  have led: "price_history (fst (logPriceHistory no_faults ''Milk'' Undefined 250 19723 empty_world)) =
     [\<lparr>ph_item_name = ''Milk'', ph_item_brand = None, ph_price = 250, ph_recorded_at = 19723\<rparr>]"
    using t by (simp add: empty_world_def)
  obtain row where "findClosestPrice False ''Milk'' (normalize_brand (Str ''null'')) 19730
     (fst (logPriceHistory no_faults ''Milk'' Undefined 250 19723 empty_world)) = Inr (Some row)"
    and "row \<in> set (price_history (fst (logPriceHistory no_faults ''Milk'' Undefined 250 19723 empty_world)))"
    using t by blast
  then have "findClosestPrice False ''Milk'' (normalize_brand (Str ''null'')) 19730
     (fst (logPriceHistory no_faults ''Milk'' Undefined 250 19723 empty_world)) =
     Inr (Some \<lparr>ph_item_name = ''Milk'', ph_item_brand = None, ph_price = 250, ph_recorded_at = 19723\<rparr>)"
    unfolding led by simp
  then show ?thesis
    using h t led by blast
qed

section \<open>Properties of the price history logger\<close>

text \<open>
  C9. A call of \<^verbatim>\<open>logPriceHistory\<close> with a price that is zero or negative returns at once:
  whatever the name, the brand and the day, and whether or not the store would have failed, the
  whole state (the ledger with it) is the one before the call, and the call returns normally.
\<close>

theorem log_nonpositive_price_noop:
  "price \<le> 0 \<Longrightarrow> logPriceHistory f name brand price day w = (w, Inr ())"
  by (simp add: logPriceHistory_def)

text \<open>
  On a ledger that holds one row, a call with price 0 for the key of that row changes nothing.
\<close>

theorem log_nonpositive_price_noop_witness:
  "(0::int) \<le> 0 \<and>
   logPriceHistory no_faults ''Milk'' (Str ''Acme'') 0 19723
     (empty_world\<lparr>price_history :=
        [\<lparr>ph_item_name = ''Milk'', ph_item_brand = Some ''Acme'', ph_price = 250,
          ph_recorded_at = 19723\<rparr>]\<rparr>) =
     (empty_world\<lparr>price_history :=
        [\<lparr>ph_item_name = ''Milk'', ph_item_brand = Some ''Acme'', ph_price = 250,
          ph_recorded_at = 19723\<rparr>]\<rparr>, Inr ())"
  using log_nonpositive_price_noop [of 0 no_faults "''Milk''" "Str ''Acme''" 19723
      "empty_world\<lparr>price_history :=
         [\<lparr>ph_item_name = ''Milk'', ph_item_brand = Some ''Acme'', ph_price = 250,
           ph_recorded_at = 19723\<rparr>]\<rparr>"]
  by simp

text \<open>
  C1. The ledger is meant to hold one row per name, brand and day, the second write of a day
  replacing the price of the first; \<open>log_twice_with_brand\<close> above shows that it does so for
  a name with a brand. The unique index does not do it for rows without a brand: an empty
  brand is stored as \<^verbatim>\<open>NULL\<close>, a \<^verbatim>\<open>NULL\<close> never collides in the index, and so two calls
  for the same name and day without a brand leave two rows. Here milk without a brand, bought
  on 2024-01-01 (day 19723), is logged at 2.50 and then at 3.00.
\<close>

theorem log_twice_without_brand_two_rows:
  "price_history
     (fst (logPriceHistory no_faults ''Milk'' (Str []) 300 19723
        (fst (logPriceHistory no_faults ''Milk'' (Str []) 250 19723 empty_world)))) =
   [\<lparr>ph_item_name = ''Milk'', ph_item_brand = None, ph_price = 250, ph_recorded_at = 19723\<rparr>,
    \<lparr>ph_item_name = ''Milk'', ph_item_brand = None, ph_price = 300, ph_recorded_at = 19723\<rparr>]"
  by (simp add: logPriceHistory_def db_brand_def pool_execute_def no_faults_def empty_world_def
      insert_price_history_def unique_price_entry_def)

section \<open>Properties of the reminder sweep\<close>

text \<open>
  C4. The scan and the choice of the message by the sign of the day difference are as
  \<open>sweep_scans_and_words\<close> and \<open>reminder_message_by_sign\<close> say, in every zone. The date in
  the alert is not the best-by date in every zone: the driver hands the best-by date over as
  its local midnight, and \<^verbatim>\<open>toISOString\<close> prints the UTC day of that instant, which east
  of UTC is the day before. Here the server is one hour east of UTC, it is 2024-01-01 10:00
  there, and the milk was due on 2023-12-31 (day 19722): the sweep scans the three items due
  within three days and words their reminders by the sign, but the alert for the milk names
  2023-12-30.
\<close>

theorem alert_names_day_before_east_of_utc:
  "curdate berlin_now = 19723 \<and> i_best_by_date milk = 19722 \<and>
   iso_date (i_best_by_date milk) = ''2023-12-31'' \<and>
   select_expiring berlin_now DAYS_THRESHOLD (example_world\<lparr>reminders := []\<rparr>) = [milk, eggs, ham] \<and>
   map r_message
     (reminders (fst (checkExpirationAndGenerateReminders no_faults berlin_now
        (example_world\<lparr>reminders := []\<rparr>)))) =
     [alert_sign @ '' ALERT: Milk is PAST its best-by date (2023-12-30).'',
      warning_sign @ '' WARNING: Eggs expires TODAY!'',
      warning_sign @ '' WARNING: Ham expires in 2 day(s).'']"
  by code_simp

text \<open>
  C5. A reminder that a sweep adds is open, and before the sweep no open reminder had its item
  and its message. Closed reminders do not count: when no open reminder has the item and
  message of a scanned item, a sweep on a store that does not fail adds one, whatever closed
  reminders there are. A second sweep at the same time, right after the first, changes
  nothing at all.
\<close>

theorem sweep_dedups_against_open_only:
  "(r \<in> set (reminders (fst (checkExpirationAndGenerateReminders f now w))) \<and>
    r \<notin> set (reminders w) \<longrightarrow>
      \<not> r_is_closed r \<and>
      filter (\<lambda>r0. r_item_id r0 = r_item_id r \<and> r_message r0 = r_message r \<and> \<not> r_is_closed r0)
        (reminders w) = []) \<and>
   (i \<in> set (items w) \<and> i_best_by_date i - curdate now \<le> 3 \<and>
    filter (\<lambda>r0. r_item_id r0 = Some (i_id i) \<and> r_message r0 = reminder_message now i \<and>
                   \<not> r_is_closed r0) (reminders w) = [] \<longrightarrow>
      (\<exists>r'\<in>set (reminders (fst (checkExpirationAndGenerateReminders no_faults now w))).
         r' \<notin> set (reminders w) \<and> \<not> r_is_closed r' \<and> r_item_id r' = Some (i_id i) \<and>
         r_message r' = reminder_message now i)) \<and>
   fst (checkExpirationAndGenerateReminders no_faults now
          (fst (checkExpirationAndGenerateReminders no_faults now w))) =
     fst (checkExpirationAndGenerateReminders no_faults now w)"
proof (intro conjI impI)
  assume "r \<in> set (reminders (fst (checkExpirationAndGenerateReminders f now w))) \<and>
    r \<notin> set (reminders w)"
  then obtain j where "\<not> r_is_closed r" and "r_item_id r = Some (i_id j)"
    and "r_message r = reminder_message now j"
    and "select_existing (i_id j) (reminder_message now j) w = []"
    using sweep_new_reminders [of r f now w] by blast
  then show "\<not> r_is_closed r"
    and "filter (\<lambda>r0. r_item_id r0 = r_item_id r \<and> r_message r0 = r_message r \<and> \<not> r_is_closed r0)
        (reminders w) = []"
    by (simp_all add: select_existing_def)
next
  assume a: "i \<in> set (items w) \<and> i_best_by_date i - curdate now \<le> 3 \<and>
    filter (\<lambda>r0. r_item_id r0 = Some (i_id i) \<and> r_message r0 = reminder_message now i \<and>
                   \<not> r_is_closed r0) (reminders w) = []"
  let ?w' = "fst (checkExpirationAndGenerateReminders no_faults now w)"
  have "select_existing (i_id i) (reminder_message now i) ?w' \<noteq> []"
    using a by (simp add: sweep_covers)
  then obtain r' where r': "r' \<in> set (select_existing (i_id i) (reminder_message now i) ?w')"
    by (meson last_in_set)
  have "r' \<notin> set (select_existing (i_id i) (reminder_message now i) w)"
    using a by (simp add: select_existing_def)
  then have "r' \<notin> set (reminders w)"
    using r' by (auto simp: select_existing_def)
  then show "\<exists>r'\<in>set (reminders ?w').
         r' \<notin> set (reminders w) \<and> \<not> r_is_closed r' \<and> r_item_id r' = Some (i_id i) \<and>
         r_message r' = reminder_message now i"
    using r' by (auto simp: select_existing_def)
next
  show "fst (checkExpirationAndGenerateReminders no_faults now
          (fst (checkExpirationAndGenerateReminders no_faults now w))) =
     fst (checkExpirationAndGenerateReminders no_faults now w)"
    by (rule sweep_idempotent)
qed

text \<open>
  In the example world the ham has a closed reminder with the very message that the sweep
  computes for it, and no open one: the sweep adds a new open reminder, and sweeping again
  leaves the four reminders of the first sweep.
\<close>

theorem sweep_dedups_against_open_only_witness:
  "ham \<in> set (items example_world) \<and> i_best_by_date ham - curdate example_now = 2 \<and>
   boundary_closed_reminder \<in> set (reminders example_world) \<and>
   r_is_closed boundary_closed_reminder \<and>
   r_item_id boundary_closed_reminder = Some (i_id ham) \<and>
   r_message boundary_closed_reminder = reminder_message example_now ham \<and>
   new_reminder example_now 5 ham (reminder_message example_now ham)
     \<in> set (reminders (fst (checkExpirationAndGenerateReminders no_faults example_now example_world))) \<and>
   new_reminder example_now 5 ham (reminder_message example_now ham) \<notin> set (reminders example_world) \<and>
   filter (\<lambda>r0. r_item_id r0 = Some (i_id ham) \<and> r_message r0 = reminder_message example_now ham \<and>
                  \<not> r_is_closed r0) (reminders example_world) = [] \<and>
   (\<exists>r'\<in>set (reminders (fst (checkExpirationAndGenerateReminders no_faults example_now example_world))).
      r' \<notin> set (reminders example_world) \<and> \<not> r_is_closed r' \<and> r_item_id r' = Some (i_id ham) \<and>
      r_message r' = reminder_message example_now ham) \<and>
   reminders (fst (checkExpirationAndGenerateReminders no_faults example_now
      (fst (checkExpirationAndGenerateReminders no_faults example_now example_world)))) =
     [old_open_reminder, boundary_closed_reminder,
      new_reminder example_now 4 milk (reminder_message example_now milk),
      new_reminder example_now 5 ham (reminder_message example_now ham)]"
proof -
  let ?r = "new_reminder example_now 5 ham (reminder_message example_now ham)"
  note t = sweep_dedups_against_open_only [of ?r no_faults example_now example_world ham]
  note t1 = t [THEN conjunct1]
  note t2 = t [THEN conjunct2, THEN conjunct1]
  note t3 = t [THEN conjunct2, THEN conjunct2]
  have h1: "ham \<in> set (items example_world)"
    by (simp add: example_world_def)
  have h2: "i_best_by_date ham - curdate example_now = 2"
    by code_simp
  have h3: "?r \<in> set (reminders (fst (checkExpirationAndGenerateReminders no_faults example_now example_world)))"
    by (simp add: example_sweep)
  have h4: "?r \<notin> set (reminders example_world)"
    by code_simp
  have h5: "boundary_closed_reminder \<in> set (reminders example_world) \<and>
      r_is_closed boundary_closed_reminder \<and>
      r_item_id boundary_closed_reminder = Some (i_id ham) \<and>
      r_message boundary_closed_reminder = reminder_message example_now ham"
    by (simp add: example_world_def boundary_closed_reminder_def ham_def example_item_def)
  have c1: "filter (\<lambda>r0. r_item_id r0 = Some (i_id ham) \<and> r_message r0 = reminder_message example_now ham \<and>
                  \<not> r_is_closed r0) (reminders example_world) = []"
    using t1 [THEN mp, OF conjI [OF h3 h4]] by (simp add: new_reminder_def)
  have le: "i_best_by_date ham - curdate example_now \<le> 3"
    unfolding h2 by simp
  have c2: "\<exists>r'\<in>set (reminders (fst (checkExpirationAndGenerateReminders no_faults example_now example_world))).
      r' \<notin> set (reminders example_world) \<and> \<not> r_is_closed r' \<and> r_item_id r' = Some (i_id ham) \<and>
      r_message r' = reminder_message example_now ham"
    using t2 [THEN mp, OF conjI [OF h1 conjI [OF le c1]]] .
  have c3: "reminders (fst (checkExpirationAndGenerateReminders no_faults example_now
      (fst (checkExpirationAndGenerateReminders no_faults example_now example_world)))) =
     [old_open_reminder, boundary_closed_reminder,
      new_reminder example_now 4 milk (reminder_message example_now milk),
      new_reminder example_now 5 ham (reminder_message example_now ham)]"
    unfolding t3 by (rule example_sweep)
  show ?thesis
    using h1 h2 h3 h4 h5 c1 c2 c3 by blast
qed

text \<open>
  C7. The purge removes exactly the closed reminders created strictly before its cutoff
  (\<open>purge_exact\<close>), and the cutoff is meant to lie one month back. On the last days of a
  month that is longer than the one before, it does not: \<^verbatim>\<open>setMonth\<close> keeps the day of the
  month, and a day that the month before does not have runs over into the present month. On
  2024-03-31 at 12:34:56.789 the cutoff is 2024-03-02 at 12:34:56.789, and a closed reminder
  created on 2024-03-01 at 23:00, less than thirty days old, is purged.
\<close>

theorem purge_at_month_end_takes_younger_reminder:
  "civil_from_days (instant month_end_now div ms_per_day) = (2024, 3, 31) \<and>
   one_month_ago month_end_now = 1709382896789 \<and>
   civil_from_days (one_month_ago month_end_now div ms_per_day) = (2024, 3, 2) \<and>
   r_is_closed march_reminder \<and>
   civil_from_days (r_created_at march_reminder div ms_per_day) = (2024, 3, 1) \<and>
   instant month_end_now - 30 * ms_per_day < r_created_at march_reminder \<and>
   reminders (fst (checkExpirationAndGenerateReminders no_faults month_end_now
      (empty_world\<lparr>reminders := [march_reminder]\<rparr>))) = []"
  by code_simp

text \<open>
  C10. Whatever fails in the store, a sweep leaves every open reminder in place and as it
  was: the open reminders before the sweep are, in the same order and number, the first open
  reminders after it, and a reminder that a sweep removes is closed. Over the whole server, an
  open reminder is missing after an event only if the event is the closing or the deletion of
  that very reminder, or the deletion of its item.
\<close>

theorem open_reminders_survive_sweep:
  "(r \<in> set (reminders w) \<and> \<not> r_is_closed r \<longrightarrow>
      r \<in> set (reminders (fst (checkExpirationAndGenerateReminders f now w)))) \<and>
   take (length (filter (\<lambda>r. \<not> r_is_closed r) (reminders w)))
     (filter (\<lambda>r. \<not> r_is_closed r) (reminders (fst (checkExpirationAndGenerateReminders f now w)))) =
     filter (\<lambda>r. \<not> r_is_closed r) (reminders w) \<and>
   (r \<in> set (reminders w) \<and>
    r \<notin> set (reminders (fst (checkExpirationAndGenerateReminders f now w))) \<longrightarrow> r_is_closed r) \<and>
   (r \<in> set (reminders w) \<and> \<not> r_is_closed r \<and> r \<notin> set (reminders (step f now ev w)) \<longrightarrow>
      ev = CloseReminder (r_id r) \<or> ev = DeleteActiveReminder (r_id r) \<or>
      (\<exists>k. ev = DeleteItem k \<and> r_item_id r = Some k))"
  using sweep_keeps_open [of r w f now] sweep_open_prefix [of w f now]
    step_removes_open [of r w f now ev]
  by blast

text \<open>
  In the example world the open reminder survives a sweep in which every store call fails
  and one in which none does; the reminder that the sweep removes is closed; and the deletion
  of item 2 takes the open reminder of item 2 along.
\<close>

theorem open_reminders_survive_sweep_witness:
  "old_open_reminder \<in> set (reminders example_world) \<and> \<not> r_is_closed old_open_reminder \<and>
   old_open_reminder \<in> set (reminders (fst (checkExpirationAndGenerateReminders side_effects_fail example_now example_world))) \<and>
   old_open_reminder \<in> set (reminders (fst (checkExpirationAndGenerateReminders no_faults example_now example_world))) \<and>
   old_closed_reminder \<in> set (reminders example_world) \<and>
   old_closed_reminder \<notin> set (reminders (fst (checkExpirationAndGenerateReminders no_faults example_now example_world))) \<and>
   r_is_closed old_closed_reminder \<and>
   old_open_reminder \<notin> set (reminders (step no_faults example_now (DeleteItem 2) example_world)) \<and>
   r_item_id old_open_reminder = Some 2"
proof -
  have m: "old_open_reminder \<in> set (reminders example_world)" "\<not> r_is_closed old_open_reminder"
    and mc: "old_closed_reminder \<in> set (reminders example_world)"
    by (simp_all add: example_world_def old_open_reminder_def)
  have gone: "old_closed_reminder \<notin> set (reminders (fst (checkExpirationAndGenerateReminders no_faults example_now example_world)))"
    unfolding example_sweep by code_simp
  have del: "old_open_reminder \<notin> set (reminders (step no_faults example_now (DeleteItem 2) example_world))"
    by code_simp
  have c1: "old_open_reminder \<in> set (reminders (fst (checkExpirationAndGenerateReminders side_effects_fail example_now example_world)))"
    using open_reminders_survive_sweep [of old_open_reminder example_world side_effects_fail example_now Tick] m
    by blast
  have c2: "old_open_reminder \<in> set (reminders (fst (checkExpirationAndGenerateReminders no_faults example_now example_world)))"
    using open_reminders_survive_sweep [of old_open_reminder example_world no_faults example_now Tick] m
    by blast
  have c3: "r_is_closed old_closed_reminder"
    using open_reminders_survive_sweep [of old_closed_reminder example_world no_faults example_now Tick] mc gone
    by blast
  have c4: "r_item_id old_open_reminder = Some 2"
    using open_reminders_survive_sweep [of old_open_reminder example_world no_faults example_now "DeleteItem 2"] m del
    by blast
  show ?thesis
    using m mc gone del c1 c2 c3 c4 by blast
qed

section \<open>Properties of the item routes\<close>



section \<open>Properties of the spending aggregator\<close>

text \<open>
  C3, as the code has it. For the period \<^verbatim>\<open>'week'\<close>, when both queries go through, the
  total is the sum over the ledger in which a row counts with its price when its day is the
  day seven days before today or a later one, and with 0 otherwise. The filter has a lower
  bound only.
\<close>

theorem week_total_sums_from_seven_days_back:
  assumes "\<not> query_fails f" and "\<not> query2_fails f"
  shows "\<exists>pantrySpent fridgeSpent freezerSpent.
     snd (get_spending f now (Some ''week'') w) =
       Response 200
         (Spending
            (\<Sum>ph\<leftarrow>price_history w. if curdate now - 7 \<le> ph_recorded_at ph then ph_price ph else 0)
            pantrySpent fridgeSpent freezerSpent)"
  by (simp add: get_spending_week [OF assms] sum_list_map_filter')

text \<open>
  Rows dated eight and seven days ago, today and tomorrow, at 1.00, 2.00, 4.00 and 5.00: the
  total is 11.00.
\<close>

theorem week_total_sums_from_seven_days_back_witness:
  "\<not> query_fails no_faults \<and> \<not> query2_fails no_faults \<and> curdate example_now = 19723 \<and>
   map ph_recorded_at (price_history week_ledger) = [19715, 19716, 19723, 19724] \<and>
   map ph_price (price_history week_ledger) = [100, 200, 400, 500] \<and>
   snd (get_spending no_faults example_now (Some ''week'') week_ledger) =
     Response 200 (Spending 1100 0 0 0)"
proof -
  have nf: "\<not> query_fails no_faults" "\<not> query2_fails no_faults"
    by simp_all
  have led: "map ph_recorded_at (price_history week_ledger) = [19715, 19716, 19723, 19724]"
    "map ph_price (price_history week_ledger) = [100, 200, 400, 500]"
    by (simp_all add: week_ledger_def empty_world_def)
  have tot: "(\<Sum>ph\<leftarrow>price_history week_ledger.
      if curdate example_now - 7 \<le> ph_recorded_at ph then ph_price ph else 0) = 1100"
    by (simp add: example_today week_ledger_def empty_world_def)
  have loc: "snd (get_spending no_faults example_now (Some ''week'') week_ledger) =
      Response 200 (Spending t p fr fz) \<Longrightarrow> p = 0 \<and> fr = 0 \<and> fz = 0" for t p fr fz
    by (simp add: get_spending_week [OF nf] select_location_spent_def week_ledger_def empty_world_def
        or_zero_sql_sum)
  obtain p fr fz where "snd (get_spending no_faults example_now (Some ''week'') week_ledger) =
      Response 200 (Spending 1100 p fr fz)"
    using week_total_sums_from_seven_days_back [OF nf, of example_now week_ledger] unfolding tot by blast
  then have "snd (get_spending no_faults example_now (Some ''week'') week_ledger) =
      Response 200 (Spending 1100 0 0 0)"
    using loc by blast
  then show ?thesis
    using nf led example_today by blast
qed

text \<open>
  C3, as stated, asks for the sum over the days from seven days ago up to today. A row dated
  tomorrow is outside that window, where the sum is 0, and yet the total is its price.
\<close>

theorem week_total_counts_future_entry:
  "curdate example_now = 19723 \<and>
   price_history future_ledger =
     [\<lparr>ph_item_name = ''Rice'', ph_item_brand = None, ph_price = 500, ph_recorded_at = 19724\<rparr>] \<and>
   snd (get_spending no_faults example_now (Some ''week'') future_ledger) =
     Response 200 (Spending 500 0 0 0) \<and>
   sum_list (map ph_price
     (filter (\<lambda>ph. curdate example_now - 7 \<le> ph_recorded_at ph \<and> ph_recorded_at ph \<le> curdate example_now)
        (price_history future_ledger))) = 0"
proof -
  have "snd (get_spending no_faults example_now (Some ''week'') future_ledger) =
     Response 200 (Spending 500 0 0 0)"
    by (simp add: get_spending_week example_today future_ledger_def empty_world_def
        select_location_spent_def or_zero_sql_sum)
  then show ?thesis
    by (simp add: example_today future_ledger_def empty_world_def)
qed

section \<open>Properties of the price difference lookup\<close>

text \<open>
  C6. With a brand parameter the lookup resolves each date as \<open>price_difference_with_brand\<close>
  says. Without one it does not: the brand stays \<^verbatim>\<open>undefined\<close>, the driver refuses it as a
  parameter, and the request ends in the 500. On a ledger whose only row for milk has no brand
  and is dated before both dates, the request without a brand parameter gets the 500 where
  the same request with the brand \<^verbatim>\<open>"null"\<close> gets that row on both sides and the
  difference 0; and with a start date before the row it gets the 500 where the other gets
  the 404 that names the start date.
\<close>

theorem difference_without_brand_parameter_fails:
  "snd (get_difference no_faults (brandless_query Undefined 19754 19905) brandless_ledger) =
     Response 500 (Error ''Failed to calculate price difference due to a server error.'') \<and>
   snd (get_difference no_faults (brandless_query (Str ''null'') 19754 19905) brandless_ledger) =
     Response 200 (PriceDifference ''Milk'' Null 19730 19730 900 900 0) \<and>
   snd (get_difference no_faults (brandless_query Undefined 19700 19905) brandless_ledger) =
     Response 500 (Error ''Failed to calculate price difference due to a server error.'') \<and>
   snd (get_difference no_faults (brandless_query (Str ''null'') 19700 19905) brandless_ledger) =
     Response 404 (NoPriceHistory ''Milk'' Start 19700)"
  by code_simp

text \<open>
  C2. The lookup is meant to treat a missing brand as the logger does, and for the empty
  string and the string \<^verbatim>\<open>"null"\<close> it does (\<open>brandless_lookup_with_sentinel\<close>). For an
  absent brand it does not: the logger and the item routes map \<^verbatim>\<open>undefined\<close> to
  \<^verbatim>\<open>null\<close>, the lookup leaves it as it is. Milk is created through the route without a
  brand, which logs one row without a brand; the lookup for it without a brand parameter
  ends in the 500, the one with the brand \<^verbatim>\<open>"null"\<close> finds the row.
\<close>

theorem lookup_without_brand_parameter_fails:
  "price_history (fst (post_item no_faults example_now brandless_form empty_world)) =
     [\<lparr>ph_item_name = ''Milk'', ph_item_brand = None, ph_price = 250, ph_recorded_at = 19723\<rparr>] \<and>
   db_brand Undefined = Null \<and> normalize_brand Undefined = Undefined \<and>
   snd (get_difference no_faults (brandless_query Undefined 19723 19730)
          (fst (post_item no_faults example_now brandless_form empty_world))) =
     Response 500 (Error ''Failed to calculate price difference due to a server error.'') \<and>
   snd (get_difference no_faults (brandless_query (Str ''null'') 19723 19730)
          (fst (post_item no_faults example_now brandless_form empty_world))) =
     Response 200 (PriceDifference ''Milk'' Null 19723 19723 250 250 0)"
  by code_simp

end
